theory Spec2Isabelle
  imports Complex_Main "HOL-Library.AList" "HOL-Library.Multiset" "HOL-Library.Sublist"
begin

section \<open>Differometor setups: construction, parameter tying and the Finesse serializer\<close>

text \<open>
  A shallow embedding of \<^verbatim>\<open>src/differometor/setups.py\<close>: the class \<^verbatim>\<open>Setup\<close> with its
  methods \<^verbatim>\<open>add\<close> and \<^verbatim>\<open>space\<close>, the accessors \<^verbatim>\<open>Nodes\<close> and \<^verbatim>\<open>Edges\<close>, the function
  \<^verbatim>\<open>constrain_inter_grid_cell_spaces\<close> and the serializer \<^verbatim>\<open>differometor_to_finesse\<close>.

  Python dictionaries keep insertion order, and assigning to a key that is present keeps
  its position; they are association lists here, written with \<open>AList.update\<close>, which
  replaces in place or appends at the end. Every \<^verbatim>\<open>raise\<close> is a value of type \<open>error\<close>.
\<close>

subsection \<open>Values and errors\<close>

text \<open>
  Property values are Python numbers. An \<^verbatim>\<open>int\<close> is unbounded; a \<^verbatim>\<open>float\<close> is idealised as
  an exact rational (rounding is not modelled). The distinction is kept because the two
  kinds print differently and because \<^verbatim>\<open>/\<close> always yields a float.
\<close>

datatype pynum = PyInt int | PyFloat rat

fun num_val :: "pynum \<Rightarrow> rat" where
  "num_val (PyInt i) = of_int i"
| "num_val (PyFloat q) = q"

text \<open>
  The six kinds of \<^verbatim>\<open>ValueError\<close> raised by \<^verbatim>\<open>add\<close> and \<^verbatim>\<open>space\<close> are told apart by their
  message; they carry the names the specification gives them. The remaining constructors
  are exceptions raised by Python itself: a missing dictionary key, a failed tuple
  unpacking (also a \<^verbatim>\<open>ValueError\<close>), a division by zero, an index out of range and a local
  variable read before assignment.
\<close>

datatype error =
    NamingError
  | ConflictError
  | UnknownComponentError
  | SchemaMismatchError
  | UnresolvedReferenceError
  | InvalidEnumError
  | PyKeyError
  | PyUnpackError
  | PyZeroDivisionError
  | PyIndexError
  | PyUnboundLocalError

fun py_sub :: "pynum \<Rightarrow> pynum \<Rightarrow> pynum" where
  "py_sub (PyInt a) (PyInt b) = PyInt (a - b)"
| "py_sub a b = PyFloat (num_val a - num_val b)"

fun py_mul :: "pynum \<Rightarrow> pynum \<Rightarrow> pynum" where
  "py_mul (PyInt a) (PyInt b) = PyInt (a * b)"
| "py_mul a b = PyFloat (num_val a * num_val b)"

definition py_truediv :: "pynum \<Rightarrow> pynum \<Rightarrow> error + pynum" where
  "py_truediv a b =
     (if num_val b = 0 then Inl PyZeroDivisionError else Inr (PyFloat (num_val a / num_val b)))"

text \<open>
  The argument \<^verbatim>\<open>auxiliary\<close> is tested with \<^verbatim>\<open>auxiliary not in [True, False]\<close>, which compares
  with \<^verbatim>\<open>==\<close>: the numbers 1 and 0 pass as well, any string fails.
\<close>

datatype pyval = PyBool bool | PyNum pynum | PyStr string

fun in_True_False :: "pyval \<Rightarrow> bool" where
  "in_True_False (PyBool b) = True"
| "in_True_False (PyNum n) = (num_val n = 1 \<or> num_val n = 0)"
| "in_True_False (PyStr s) = False"

subsection \<open>Strings and dictionaries\<close>

text \<open>\<^verbatim>\<open>s.split(c)\<close> for a one-character separator: the result is never empty.\<close>

fun split :: "char \<Rightarrow> string \<Rightarrow> string list" where
  "split c [] = [[]]"
| "split c (x # xs) =
     (if x = c then [] # split c xs
      else (case split c xs of [] \<Rightarrow> [[x]] | p # ps \<Rightarrow> (x # p) # ps))"

type_synonym props = "(string \<times> pynum) list"

text \<open>\<^verbatim>\<open>{**d, **p}\<close>: the entries of \<open>d\<close>, each entry of \<open>p\<close> assigned in turn.\<close>

definition dict_merge :: "('k \<times> 'v) list \<Rightarrow> ('k \<times> 'v) list \<Rightarrow> ('k \<times> 'v) list" where
  "dict_merge d p = fold (\<lambda>kv. AList.update (fst kv) (snd kv)) p d"

definition has_key :: "('k \<times> 'v) list \<Rightarrow> 'k \<Rightarrow> bool" where
  "has_key d k = (map_of d k \<noteq> None)"

definition getitem :: "('k \<times> 'v) list \<Rightarrow> 'k \<Rightarrow> error + 'v" where
  "getitem d k = (case map_of d k of None \<Rightarrow> Inl PyKeyError | Some v \<Rightarrow> Inr v)"

subsection \<open>The graph store\<close>

record node =
  component :: string
  properties :: props
  target :: "string option"
  target_property :: "string option"
  port :: "string option"
  direction :: "string option"
  auxiliary :: "pyval option"
  detector1 :: "string option"
  detector2 :: "string option"

record edge =
  edge_properties :: props
  source_port :: string
  target_port :: string

record Setup =
  parameters :: "(string \<times> string) list"
  nodes :: "(string \<times> node) list"
  edges :: "((string \<times> string) \<times> edge) list"

text \<open>\<^verbatim>\<open>Setup.__init__\<close>: nothing stored yet, and the table of default records.\<close>

definition Setup_init :: Setup where
  "Setup_init = \<lparr>parameters = [], nodes = [], edges = []\<rparr>"

definition default_properties :: "(string \<times> props) list" where
  "default_properties =
    [(''frequency'', [(''frequency'', PyInt 1)]),
     (''laser'', [(''power'', PyFloat 1), (''phase'', PyFloat 0)]),
     (''squeezer'', [(''db'', PyInt 0), (''angle'', PyInt 90)]),
     (''mirror'', [(''loss'', PyFloat (5 / 1000000)), (''reflectivity'', PyFloat (1 / 2)),
                   (''tuning'', PyFloat 0)]),
     (''beamsplitter'', [(''loss'', PyFloat (5 / 1000000)), (''reflectivity'', PyFloat (1 / 2)),
                         (''tuning'', PyFloat 0), (''alpha'', PyFloat 45)]),
     (''free_mass'', [(''mass'', PyFloat 40)]),
     (''signal'', [(''amplitude'', PyFloat 1), (''phase'', PyFloat 0)]),
     (''space'', [(''length'', PyInt 0), (''refractive_index'', PyFloat 1)]),
     (''detector'', []),
     (''qnoised'', []),
     (''qhd'', [(''phase'', PyInt 0)]),
     (''nothing'', []),
     (''directional_beamsplitter'', [])]"

text \<open>\<^verbatim>\<open>Nodes.__getitem__\<close> and \<^verbatim>\<open>Edges.__getitem__\<close>; the latter unpacks the split name
  into exactly two parts.\<close>

definition Nodes_getitem :: "Setup \<Rightarrow> string \<Rightarrow> error + node" where
  "Nodes_getitem S n = getitem (nodes S) n"

definition Edges_getitem :: "Setup \<Rightarrow> string \<Rightarrow> error + edge" where
  "Edges_getitem S e =
     (case split (CHR ''_'') e of
        [source, tgt] \<Rightarrow> getitem (edges S) (source, tgt)
      | _ \<Rightarrow> Inl PyUnpackError)"

subsection \<open>\<^verbatim>\<open>Setup.add\<close>\<close>

text \<open>
  Lines 88 to 97: the pre-pass for mirrors and beamsplitters. The quotient is evaluated
  left to right: both reads of \<^verbatim>\<open>properties['loss']\<close> precede the division.
\<close>

definition mirror_prepass :: "string \<Rightarrow> props \<Rightarrow> error + props" where
  "mirror_prepass kind ps =
    (if kind = ''mirror'' \<or> kind = ''beamsplitter'' then
       if has_key ps ''reflectivity'' \<and> has_key ps ''transmissivity'' then Inl ConflictError
       else if has_key ps ''transmissivity'' then
         (case getitem default_properties kind of Inl e \<Rightarrow> Inl e | Inr d \<Rightarrow>
            let merged = dict_merge d ps in
            (case getitem merged ''transmissivity'' of Inl e \<Rightarrow> Inl e | Inr t \<Rightarrow>
               let popped = AList.delete ''transmissivity'' merged in
               (case getitem popped ''loss'' of Inl e \<Rightarrow> Inl e | Inr l \<Rightarrow>
                  (case py_truediv (py_sub (py_sub (PyInt 1) t) l) (py_sub (PyInt 1) l) of
                     Inl e \<Rightarrow> Inl e
                   | Inr r \<Rightarrow> Inr (AList.update ''reflectivity'' r popped)))))
       else if has_key ps ''reflectivity'' then
         (case getitem default_properties kind of Inl e \<Rightarrow> Inl e | Inr d \<Rightarrow>
            let merged = dict_merge d ps in
            (case getitem merged ''reflectivity'' of Inl e \<Rightarrow> Inl e | Inr r0 \<Rightarrow>
               (case getitem merged ''loss'' of Inl e \<Rightarrow> Inl e | Inr l \<Rightarrow>
                  (case py_truediv r0 (py_sub (PyInt 1) l) of
                     Inl e \<Rightarrow> Inl e
                   | Inr r \<Rightarrow> Inr (AList.update ''reflectivity'' r merged)))))
       else Inr ps
     else Inr ps)"

text \<open>
  The part of \<^verbatim>\<open>add\<close> after the node record is stored (lines 114 to 159). Each step
  writes one optional key into the record stored under \<open>name\<close>, or raises; the setup
  it has reached is returned together with the error, because the store is mutated
  in place and a later \<^verbatim>\<open>raise\<close> does not undo it.
\<close>

definition set_key :: "string \<Rightarrow> (node \<Rightarrow> node) \<Rightarrow> Setup \<Rightarrow> Setup" where
  "set_key name f S = S\<lparr>nodes := AList.map_entry name f (nodes S)\<rparr>"

definition add_target :: "string \<Rightarrow> string option \<Rightarrow> Setup \<Rightarrow> Setup \<times> error option" where
  "add_target name tg S =
    (case tg of None \<Rightarrow> (S, None) | Some t \<Rightarrow>
      if CHR ''_'' \<in> set t then
        if last (split (CHR ''_'') t) \<notin> {''amplitude'', ''frequency''} then
          (case Edges_getitem S t of
             Inl e \<Rightarrow> (S, Some (if e = PyKeyError then UnresolvedReferenceError else e))
           | Inr _ \<Rightarrow> (set_key name (\<lambda>n. n\<lparr>target := Some t\<rparr>) S, None))
        else
          (case Nodes_getitem S (hd (split (CHR ''_'') t)) of
             Inl e \<Rightarrow> (S, Some (if e = PyKeyError then UnresolvedReferenceError else e))
           | Inr _ \<Rightarrow>
               (set_key name (\<lambda>n. n\<lparr>target := Some (hd (split (CHR ''_'') t)),
                                     target_property := Some (last (split (CHR ''_'') t))\<rparr>) S,
                None))
      else
        (case Nodes_getitem S t of
           Inl e \<Rightarrow> (S, Some (if e = PyKeyError then UnresolvedReferenceError else e))
         | Inr _ \<Rightarrow> (set_key name (\<lambda>n. n\<lparr>target := Some t\<rparr>) S, None)))"

definition add_port :: "string \<Rightarrow> string option \<Rightarrow> Setup \<Rightarrow> Setup \<times> error option" where
  "add_port name pt S =
    (case pt of None \<Rightarrow> (S, None) | Some p \<Rightarrow>
      if p \<notin> set [''left'', ''top'', ''right'', ''bottom''] then (S, Some InvalidEnumError)
      else (set_key name (\<lambda>n. n\<lparr>port := Some p\<rparr>) S, None))"

definition add_direction :: "string \<Rightarrow> string option \<Rightarrow> Setup \<Rightarrow> Setup \<times> error option" where
  "add_direction name dr S =
    (case dr of None \<Rightarrow> (S, None) | Some d \<Rightarrow>
      if d \<notin> set [''in'', ''out''] then (S, Some InvalidEnumError)
      else (set_key name (\<lambda>n. n\<lparr>direction := Some d\<rparr>) S, None))"

definition add_auxiliary :: "string \<Rightarrow> pyval option \<Rightarrow> Setup \<Rightarrow> Setup \<times> error option" where
  "add_auxiliary name ax S =
    (case ax of None \<Rightarrow> (S, None) | Some a \<Rightarrow>
      if \<not> in_True_False a then (S, Some InvalidEnumError)
      else (set_key name (\<lambda>n. n\<lparr>auxiliary := Some a\<rparr>) S, None))"

definition add_detector1 :: "string \<Rightarrow> string option \<Rightarrow> Setup \<Rightarrow> Setup \<times> error option" where
  "add_detector1 name dt S =
    (case dt of None \<Rightarrow> (S, None) | Some d \<Rightarrow>
      if \<not> has_key (nodes S) d then (S, Some UnresolvedReferenceError)
      else (set_key name (\<lambda>n. n\<lparr>detector1 := Some d\<rparr>) S, None))"

definition add_detector2 :: "string \<Rightarrow> string option \<Rightarrow> Setup \<Rightarrow> Setup \<times> error option" where
  "add_detector2 name dt S =
    (case dt of None \<Rightarrow> (S, None) | Some d \<Rightarrow>
      if \<not> has_key (nodes S) d then (S, Some UnresolvedReferenceError)
      else (set_key name (\<lambda>n. n\<lparr>detector2 := Some d\<rparr>) S, None))"

text \<open>Run the next step unless the previous one raised.\<close>

definition and_then ::
  "Setup \<times> error option \<Rightarrow> (Setup \<Rightarrow> Setup \<times> error option) \<Rightarrow> Setup \<times> error option" where
  "and_then r f = (case r of (S, None) \<Rightarrow> f S | (S, Some e) \<Rightarrow> (S, Some e))"

definition new_node :: "string \<Rightarrow> props \<Rightarrow> node" where
  "new_node kind ps =
     \<lparr>component = kind, properties = ps, target = None, target_property = None, port = None,
      direction = None, auxiliary = None, detector1 = None, detector2 = None\<rparr>"

text \<open>
  Lines 85 to 105, which write nothing: the name check, the pre-pass, the merge onto the
  default record of the kind and the comparison of the two lengths. The result is the merged
  record.
\<close>

definition checked_properties :: "string \<Rightarrow> string \<Rightarrow> props \<Rightarrow> error + props" where
  "checked_properties kind name ps =
    (if CHR ''_'' \<in> set name then Inl NamingError
     else
       (case mirror_prepass kind ps of Inl e \<Rightarrow> Inl e | Inr ps1 \<Rightarrow>
         (case getitem default_properties kind of
            Inl e \<Rightarrow> Inl UnknownComponentError
          | Inr d \<Rightarrow>
              let ps2 = dict_merge d ps1 in
              if length ps2 \<noteq> length d then Inl SchemaMismatchError else Inr ps2)))"

text \<open>Lines 106 to 112: the parameter entries are appended and the node record is stored.\<close>

definition store_node :: "string \<Rightarrow> string \<Rightarrow> bool \<Rightarrow> props \<Rightarrow> Setup \<Rightarrow> Setup" where
  "store_node kind name optimizable ps2 S =
    (let S1 = (if \<not> kind = ''signal'' \<and> \<not> kind = ''frequency'' \<and> optimizable
               then S\<lparr>parameters := parameters S @ map (\<lambda>k. (name, k)) (map fst ps2)\<rparr>
               else S)
     in S1\<lparr>nodes := AList.update name (new_node kind ps2) (nodes S1)\<rparr>)"

text \<open>Lines 114 to 159: the optional arguments, in the order of the source.\<close>

definition decorate ::
  "string \<Rightarrow> string option \<Rightarrow> string option \<Rightarrow> string option \<Rightarrow> pyval option \<Rightarrow>
   string option \<Rightarrow> string option \<Rightarrow> Setup \<Rightarrow> Setup \<times> error option" where
  "decorate name tg pt dr ax d1 d2 S =
     and_then (and_then (and_then (and_then (and_then
       (add_target name tg S)
       (add_port name pt)) (add_direction name dr)) (add_auxiliary name ax))
       (add_detector1 name d1)) (add_detector2 name d2)"

text \<open>
  \<^verbatim>\<open>add(component, name, optimizable, target, port, direction, auxiliary, detector1,
  detector2, **properties)\<close> on the setup \<open>S\<close>. The result is the setup after the call and
  the exception raised, if any.
\<close>

definition add ::
  "string \<Rightarrow> string \<Rightarrow> bool \<Rightarrow> string option \<Rightarrow> string option \<Rightarrow> string option \<Rightarrow>
   pyval option \<Rightarrow> string option \<Rightarrow> string option \<Rightarrow> props \<Rightarrow> Setup \<Rightarrow> Setup \<times> error option" where
  "add kind name optimizable tg pt dr ax d1 d2 ps S =
    (case checked_properties kind name ps of
       Inl e \<Rightarrow> (S, Some e)
     | Inr ps2 \<Rightarrow> decorate name tg pt dr ax d1 d2 (store_node kind name optimizable ps2 S))"

subsection \<open>\<^verbatim>\<open>Setup.space\<close>\<close>

text \<open>
  \<^verbatim>\<open>space(source, target, optimizable, source_port, target_port, **properties)\<close>. Both end
  points are looked up before anything is written. The ports are stored as given.
\<close>

definition space ::
  "string \<Rightarrow> string \<Rightarrow> bool \<Rightarrow> string \<Rightarrow> string \<Rightarrow> props \<Rightarrow> Setup \<Rightarrow> Setup \<times> error option" where
  "space source tgt optimizable sp tp ps S =
    (if \<not> has_key (nodes S) source then (S, Some UnresolvedReferenceError)
     else if \<not> has_key (nodes S) tgt then (S, Some UnresolvedReferenceError)
     else
       (case getitem default_properties ''space'' of Inl e \<Rightarrow> (S, Some e) | Inr d \<Rightarrow>
          let ps1 = dict_merge d ps in
          if length ps1 \<noteq> length d then (S, Some SchemaMismatchError)
          else
            let S1 = (if optimizable
                      then S\<lparr>parameters := parameters S @
                                map (\<lambda>k. (source @ ''_'' @ tgt, k)) (map fst ps1)\<rparr>
                      else S)
            in (S1\<lparr>edges := AList.update (source, tgt)
                     \<lparr>edge_properties = ps1, source_port = sp, target_port = tp\<rparr> (edges S1)\<rparr>,
                None)))"

text \<open>The structural invariant of the store: node names are distinct and free of the
  separator, edge keys are distinct.\<close>

definition store_invariant :: "Setup \<Rightarrow> bool" where
  "store_invariant S =
     (distinct (map fst (nodes S)) \<and> list_all (\<lambda>n. CHR ''_'' \<notin> set n) (map fst (nodes S))
      \<and> distinct (map fst (edges S)))"

text \<open>The records stored under the other keys, in order.\<close>

definition others :: "'k \<Rightarrow> ('k \<times> 'v) list \<Rightarrow> ('k \<times> 'v) list" where
  "others k d = filter (\<lambda>kv. fst kv \<noteq> k) d"

text \<open>The first exception of a sequence of steps, if any.\<close>

fun first_error :: "error option list \<Rightarrow> error option" where
  "first_error [] = None"
| "first_error (None # es) = first_error es"
| "first_error (Some e # es) = Some e"

text \<open>A change of a node record that leaves its kind and its property mapping alone.\<close>

definition keeps_record :: "(node \<Rightarrow> node) \<Rightarrow> bool" where
  "keeps_record f = (\<forall>n. component (f n) = component n \<and> properties (f n) = properties n)"

subsection \<open>Construction scripts\<close>

text \<open>
  A client builds a setup by a sequence of calls (as \<^verbatim>\<open>voyager\<close>, \<^verbatim>\<open>aligo\<close> and \<^verbatim>\<open>uifo\<close> do);
  an exception of one call ends the script.
\<close>

datatype call =
    Add string string bool "string option" "string option" "string option" "pyval option"
        "string option" "string option" props
  | Space string string bool string string props

fun run_call :: "call \<Rightarrow> Setup \<Rightarrow> Setup \<times> error option" where
  "run_call (Add kind name optimizable tg pt dr ax d1 d2 ps) S =
     add kind name optimizable tg pt dr ax d1 d2 ps S"
| "run_call (Space source tgt optimizable sp tp ps) S = space source tgt optimizable sp tp ps S"

fun construct :: "call list \<Rightarrow> Setup \<Rightarrow> error + Setup" where
  "construct [] S = Inr S"
| "construct (c # cs) S =
     (case run_call c S of (S', None) \<Rightarrow> construct cs S' | (S', Some e) \<Rightarrow> Inl e)"

text \<open>
  The specification's account of the parameter list: the schema of a kind is the list of
  property names of its default record, and each optimizable call contributes one entry
  per schema property.
\<close>

definition schema :: "string \<Rightarrow> string list" where
  "schema kind = (case map_of default_properties kind of None \<Rightarrow> [] | Some d \<Rightarrow> map fst d)"

fun spec_entries :: "call \<Rightarrow> (string \<times> string) list" where
  "spec_entries (Add kind name optimizable tg pt dr ax d1 d2 ps) =
     (if optimizable \<and> kind \<notin> {''signal'', ''frequency''}
      then map (\<lambda>k. (name, k)) (schema kind) else [])"
| "spec_entries (Space source tgt optimizable sp tp ps) =
     (if optimizable then map (\<lambda>k. (source @ ''_'' @ tgt, k)) (schema ''space'') else [])"

text \<open>
  The three forms of a \<^verbatim>\<open>target\<close> string the specification tells apart, the string each
  stands for, and what it refers to in a setup while the node \<open>name\<close> is being added.
\<close>

datatype reference = NodeRef string | EdgeRef string string | PseudoPropertyRef string string

fun compound_name :: "reference \<Rightarrow> string" where
  "compound_name (NodeRef n) = n"
| "compound_name (EdgeRef a b) = a @ ''_'' @ b"
| "compound_name (PseudoPropertyRef n p) = n @ ''_'' @ p"

fun well_formed :: "reference \<Rightarrow> bool" where
  "well_formed (NodeRef n) = (CHR ''_'' \<notin> set n)"
| "well_formed (EdgeRef a b) =
     (CHR ''_'' \<notin> set a \<and> CHR ''_'' \<notin> set b \<and> b \<noteq> ''amplitude'' \<and> b \<noteq> ''frequency'')"
| "well_formed (PseudoPropertyRef n p) =
     (CHR ''_'' \<notin> set n \<and> (p = ''amplitude'' \<or> p = ''frequency''))"

definition node_known :: "Setup \<Rightarrow> string \<Rightarrow> string \<Rightarrow> bool" where
  "node_known S name n = (has_key (nodes S) n \<or> n = name)"

fun ref_known :: "Setup \<Rightarrow> string \<Rightarrow> reference \<Rightarrow> bool" where
  "ref_known S name (NodeRef n) = node_known S name n"
| "ref_known S name (EdgeRef a b) = has_key (edges S) (a, b)"
| "ref_known S name (PseudoPropertyRef n p) = node_known S name n"

fun opt_all :: "('a \<Rightarrow> bool) \<Rightarrow> 'a option \<Rightarrow> bool" where
  "opt_all P None = True"
| "opt_all P (Some x) = P x"

subsection \<open>\<^verbatim>\<open>constrain_inter_grid_cell_spaces\<close>\<close>

text \<open>
  An element of the result is a two-element list \<^verbatim>\<open>[component_name, property_name]\<close> or a
  list of such lists. The two \<^verbatim>\<open>defaultdict(list)\<close> are association lists from a character
  to the list collected under it; a new key goes to the end.
\<close>

datatype entry = Pair_entry string string | Group_entry "(string \<times> string) list"

definition dd_append :: "'k \<Rightarrow> 'v \<Rightarrow> ('k \<times> 'v list) list \<Rightarrow> ('k \<times> 'v list) list" where
  "dd_append k v d =
     (case map_of d k of None \<Rightarrow> d @ [(k, [v])] | Some vs \<Rightarrow> AList.update k (vs @ [v]) d)"

text \<open>\<^verbatim>\<open>s[-1]\<close> and \<^verbatim>\<open>s[-2]\<close> raise \<^verbatim>\<open>IndexError\<close> on a string that is too short.\<close>

definition index_m1 :: "string \<Rightarrow> error + char" where
  "index_m1 s = (if length s < 1 then Inl PyIndexError else Inr (s ! (length s - 1)))"

definition index_m2 :: "string \<Rightarrow> error + char" where
  "index_m2 s = (if length s < 2 then Inl PyIndexError else Inr (s ! (length s - 2)))"

type_synonym grouping =
  "entry list \<times> (char \<times> (string \<times> string) list) list \<times> (char \<times> (string \<times> string) list) list"

text \<open>The loop of lines 471 to 482 on the state \<^verbatim>\<open>(constrained_pairs,
  constrained_pair_dicts[0], constrained_pair_dicts[1])\<close>.\<close>

fun group_loop :: "(string \<times> string) list \<Rightarrow> grouping \<Rightarrow> error + grouping" where
  "group_loop [] st = Inr st"
| "group_loop ((component_name, property_name) # rest) (cp, horizontal, vertical) =
     (if property_name = ''length'' then
        if sublist ''center'' component_name \<or> sublist ''boundary'' component_name then
          group_loop rest (cp, horizontal, vertical)
        else if sublist ''mr'' component_name \<and> sublist ''_ml'' component_name then
          (case index_m1 (hd (split (CHR ''_'') component_name)) of
             Inl e \<Rightarrow> Inl e
           | Inr k \<Rightarrow> group_loop rest
               (cp, dd_append k (component_name, property_name) horizontal, vertical))
        else if sublist ''mt'' component_name \<and> sublist ''_mb'' component_name then
          (case index_m2 (hd (split (CHR ''_'') component_name)) of
             Inl e \<Rightarrow> Inl e
           | Inr k \<Rightarrow> group_loop rest
               (cp, horizontal, dd_append k (component_name, property_name) vertical))
        else group_loop rest (cp @ [Pair_entry component_name property_name], horizontal, vertical)
      else group_loop rest (cp @ [Pair_entry component_name property_name], horizontal, vertical))"

text \<open>Truth value and length of an element, as lines 486 and 487 read them.\<close>

fun truthy :: "entry \<Rightarrow> bool" where
  "truthy (Pair_entry c p) = True"
| "truthy (Group_entry g) = (g \<noteq> [])"

fun unwrap :: "entry \<Rightarrow> entry" where
  "unwrap (Pair_entry c p) = Pair_entry c p"
| "unwrap (Group_entry g) = (case g of [(c, p)] \<Rightarrow> Pair_entry c p | _ \<Rightarrow> Group_entry g)"

definition constrain_inter_grid_cell_spaces ::
  "(string \<times> string) list \<Rightarrow> string list \<Rightarrow> error + entry list" where
  "constrain_inter_grid_cell_spaces component_property_pairs optimized_properties =
     (case group_loop (filter (\<lambda>cp. snd cp \<in> set optimized_properties) component_property_pairs)
             ([], [], []) of
        Inl e \<Rightarrow> Inl e
      | Inr (cp, horizontal, vertical) \<Rightarrow>
          Inr (map unwrap (filter truthy
                (cp @ map (\<lambda>kv. Group_entry (snd kv)) horizontal
                    @ map (\<lambda>kv. Group_entry (snd kv)) vertical))))"

text \<open>The parameters an element stands for.\<close>

fun members :: "entry \<Rightarrow> (string \<times> string) list" where
  "members (Pair_entry c p) = [(c, p)]"
| "members (Group_entry g) = g"

subsection \<open>\<^verbatim>\<open>differometor_to_finesse\<close>\<close>

text \<open>
  The serializer reads the table \<^verbatim>\<open>DEFAULT_PROPERTIES\<close> of the module
  \<^verbatim>\<open>differometor.components\<close> and formats numbers with Python's \<^verbatim>\<open>str\<close>. The table is the
  parameter \<open>DP\<close>. An \<^verbatim>\<open>int\<close> prints as its decimal digits; how a \<^verbatim>\<open>float\<close> prints is the
  parameter \<open>fs\<close>. The line printed when a kind is missing from the table is not part of
  the returned string and is left out.
\<close>

fun str_nat :: "nat \<Rightarrow> string" where
  "str_nat n = (if n < 10 then [''0123456789'' ! n]
                else str_nat (n div 10) @ [''0123456789'' ! (n mod 10)])"

definition str_int :: "int \<Rightarrow> string" where
  "str_int i = (if i < 0 then ''-'' @ str_nat (nat (- i)) else str_nat (nat i))"

fun str_num :: "(rat \<Rightarrow> string) \<Rightarrow> pynum \<Rightarrow> string" where
  "str_num fs (PyInt i) = str_int i"
| "str_num fs (PyFloat q) = fs q"

definition port_translation :: "(string \<times> (string \<times> string) list) list" where
  "port_translation =
    [(''mirror'', [(''left'', ''p1''), (''right'', ''p2'')]),
     (''laser'', [(''left'', ''p1''), (''right'', ''p1'')]),
     (''squeezer'', [(''left'', ''p1''), (''right'', ''p1'')]),
     (''beamsplitter'', [(''left'', ''p1''), (''top'', ''p2''), (''right'', ''p3''),
                         (''bottom'', ''p4'')]),
     (''directional_beamsplitter'', [(''left'', ''p1''), (''top'', ''p2''), (''right'', ''p3''),
                                     (''bottom'', ''p4'')]),
     (''nothing'', [(''left'', ''p1''), (''right'', ''p2'')])]"

definition direction_translation :: "(string \<times> string) list" where
  "direction_translation = [(''in'', ''i''), (''out'', ''o'')]"

definition bind_err :: "error + 'a \<Rightarrow> ('a \<Rightarrow> error + 'b) \<Rightarrow> error + 'b" where
  "bind_err r f = (case r of Inl e \<Rightarrow> Inl e | Inr x \<Rightarrow> f x)"

text \<open>\<^verbatim>\<open>data['target']\<close> and its like: a key that \<^verbatim>\<open>add\<close> did not write is missing.\<close>

definition data_key :: "'a option \<Rightarrow> error + 'a" where
  "data_key v = (case v of None \<Rightarrow> Inl PyKeyError | Some x \<Rightarrow> Inr x)"

text \<open>Lines 547 to 549 and 552 to 554: loss folded into reflectivity and transmissivity.\<close>

definition fold_loss :: "pynum \<Rightarrow> pynum \<Rightarrow> pynum \<times> pynum" where
  "fold_loss reflectivity l =
     (let r = py_mul reflectivity (py_sub (PyInt 1) l); t = py_sub (py_sub (PyInt 1) r) l
      in (r, t))"

text \<open>
  The text one node appends to \<^verbatim>\<open>finesse\<close>, given the merged \<^verbatim>\<open>property_dict\<close>: the chain of
  \<^verbatim>\<open>if\<close>/\<^verbatim>\<open>elif\<close> of lines 540 to 572, which has no branch for the kinds \<^verbatim>\<open>detector\<close>,
  \<^verbatim>\<open>qhd\<close> and \<^verbatim>\<open>space\<close>.
\<close>

definition node_statement ::
  "(rat \<Rightarrow> string) \<Rightarrow> Setup \<Rightarrow> string \<Rightarrow> node \<Rightarrow> props \<Rightarrow> error + string" where
  "node_statement fs S name data pd =
    (if component data = ''frequency'' then
       bind_err (getitem pd ''frequency'') (\<lambda>f. Inr (''fsig('' @ str_num fs f @ '')'' @ [CHR 0x0A]))
     else if component data = ''laser'' then
       bind_err (getitem pd ''power'') (\<lambda>pw. bind_err (getitem pd ''phase'') (\<lambda>ph.
         Inr (''l '' @ name @ '' P='' @ str_num fs pw @ '' phase='' @ str_num fs ph @ [CHR 0x0A])))
     else if component data = ''squeezer'' then
       bind_err (getitem pd ''db'') (\<lambda>db. bind_err (getitem pd ''angle'') (\<lambda>an.
         Inr (''sq '' @ name @ '' db='' @ str_num fs db @ '' angle='' @ str_num fs an @ [CHR 0x0A])))
     else if component data = ''mirror'' then
       bind_err (getitem pd ''loss'') (\<lambda>l. bind_err (getitem pd ''reflectivity'') (\<lambda>rf.
         let (r, t) = fold_loss rf l in
         bind_err (getitem pd ''tuning'') (\<lambda>tu.
           Inr (''m '' @ name @ '' R='' @ str_num fs r @ '' T='' @ str_num fs t
                @ '' L='' @ str_num fs l @ '' phi='' @ str_num fs tu @ [CHR 0x0A]))))
     else if component data = ''beamsplitter'' then
       bind_err (getitem pd ''loss'') (\<lambda>l. bind_err (getitem pd ''reflectivity'') (\<lambda>rf.
         let (r, t) = fold_loss rf l in
         bind_err (getitem pd ''tuning'') (\<lambda>tu. bind_err (getitem pd ''alpha'') (\<lambda>al.
           Inr (''bs '' @ name @ '' R='' @ str_num fs r @ '' T='' @ str_num fs t
                @ '' L='' @ str_num fs l @ '' phi='' @ str_num fs tu
                @ '' alpha='' @ str_num fs al @ [CHR 0x0A])))))
     else if component data = ''free_mass'' then
       bind_err (data_key (target data)) (\<lambda>tg. bind_err (getitem pd ''mass'') (\<lambda>m.
         Inr (''free_mass '' @ name @ '' '' @ tg @ ''.mech mass='' @ str_num fs m @ [CHR 0x0A])))
     else if component data = ''signal'' then
       if target_property data = Some ''frequency'' then
         bind_err (data_key (target data)) (\<lambda>tg. bind_err (getitem pd ''amplitude'') (\<lambda>am.
           bind_err (getitem pd ''phase'') (\<lambda>ph.
             Inr (''sgen '' @ name @ '' '' @ tg @ ''.frq.i amplitude='' @ str_num fs am
                  @ '' phase='' @ str_num fs ph @ [CHR 0x0A]))))
       else if target_property data = Some ''amplitude'' then
         bind_err (data_key (target data)) (\<lambda>tg. bind_err (data_key (target data)) (\<lambda>tg2.
           bind_err (getitem pd ''phase'') (\<lambda>ph.
             Inr (''sgen '' @ name @ '' '' @ tg @ ''.amp.i amplitude=sqrt('' @ tg2 @ ''.P) phase=''
                  @ str_num fs ph @ [CHR 0x0A]))))
       else
         bind_err (data_key (target data)) (\<lambda>tg. bind_err (getitem pd ''amplitude'') (\<lambda>am.
           bind_err (getitem pd ''phase'') (\<lambda>ph.
             Inr (''sgen '' @ name @ '' '' @ tg @ ''.h amplitude='' @ str_num fs am
                  @ '' phase='' @ str_num fs ph @ [CHR 0x0A]))))
     else if component data = ''qnoised'' then
       bind_err (data_key (target data)) (\<lambda>tg. bind_err (Nodes_getitem S tg) (\<lambda>tn.
         bind_err (getitem port_translation (component tn)) (\<lambda>table.
           bind_err (data_key (port data)) (\<lambda>pt. bind_err (getitem table pt) (\<lambda>pcode.
             bind_err (data_key (direction data)) (\<lambda>dr.
               bind_err (getitem direction_translation dr) (\<lambda>dcode.
                 bind_err (data_key (target data)) (\<lambda>tg2.
                   Inr (''qnoised '' @ name @ '' '' @ tg2 @ ''.'' @ pcode @ ''.'' @ dcode
                        @ [CHR 0x0A])))))))))
     else if component data = ''directional_beamsplitter'' then
       Inr (''dbs '' @ name @ [CHR 0x0A])
     else if component data = ''nothing'' then
       Inr (''nothing '' @ name @ [CHR 0x0A])
     else Inr [])"

text \<open>
  One turn of the loop over the nodes (lines 533 to 572) on the pair of \<^verbatim>\<open>finesse\<close> and the
  local \<^verbatim>\<open>property_dict\<close>, which is unbound before the first assignment and keeps its
  value of the previous turn when the kind is not in the table.
\<close>

definition node_step ::
  "(string \<times> props) list \<Rightarrow> (rat \<Rightarrow> string) \<Rightarrow> Setup \<Rightarrow> string \<times> node \<Rightarrow>
   string \<times> props option \<Rightarrow> error + string \<times> props option" where
  "node_step DP fs S nd st =
    (let pd0 = (case getitem DP (component (snd nd)) of Inr d \<Rightarrow> Some d | Inl e \<Rightarrow> snd st) in
     case pd0 of
       None \<Rightarrow> Inl PyUnboundLocalError
     | Some pd1 \<Rightarrow>
         let pd = dict_merge pd1 (properties (snd nd)) in
         bind_err (node_statement fs S (fst nd) (snd nd) pd)
           (\<lambda>stmt. Inr (fst st @ stmt, Some pd)))"

fun node_loop ::
  "(string \<times> props) list \<Rightarrow> (rat \<Rightarrow> string) \<Rightarrow> Setup \<Rightarrow> (string \<times> node) list \<Rightarrow>
   string \<times> props option \<Rightarrow> error + string \<times> props option" where
  "node_loop DP fs S [] st = Inr st"
| "node_loop DP fs S (nd # rest) st =
     bind_err (node_step DP fs S nd st) (node_loop DP fs S rest)"

text \<open>One turn of the loop over the edges (lines 575 to 581).\<close>

definition edge_statement ::
  "(string \<times> props) list \<Rightarrow> (rat \<Rightarrow> string) \<Rightarrow> Setup \<Rightarrow> (string \<times> string) \<times> edge \<Rightarrow>
   error + string" where
  "edge_statement DP fs S e =
    (let source = fst (fst e); tgt = snd (fst e); data = snd e in
     bind_err (getitem DP ''space'') (\<lambda>d.
       let pd = dict_merge d (edge_properties data) in
       bind_err (Nodes_getitem S source) (\<lambda>sn.
       bind_err (getitem port_translation (component sn)) (\<lambda>stable.
       bind_err (getitem stable (source_port data)) (\<lambda>scode.
       bind_err (Nodes_getitem S tgt) (\<lambda>tn.
       bind_err (getitem port_translation (component tn)) (\<lambda>ttable.
       bind_err (getitem ttable (target_port data)) (\<lambda>tcode.
       bind_err (getitem direction_translation ''out'') (\<lambda>dcode.
       bind_err (getitem pd ''length'') (\<lambda>len.
       bind_err (getitem pd ''refractive_index'') (\<lambda>nr.
         Inr (''s '' @ source @ ''_'' @ tgt @ '' '' @ source @ ''.'' @ scode @ '' '' @ tgt @ ''.''
              @ tcode @ '' L='' @ str_num fs len @ '' nr='' @ str_num fs nr @ [CHR 0x0A]))))))))))))"

fun edge_loop ::
  "(string \<times> props) list \<Rightarrow> (rat \<Rightarrow> string) \<Rightarrow> Setup \<Rightarrow> ((string \<times> string) \<times> edge) list \<Rightarrow>
   string \<Rightarrow> error + string" where
  "edge_loop DP fs S [] finesse = Inr finesse"
| "edge_loop DP fs S (e # rest) finesse =
     bind_err (edge_statement DP fs S e) (\<lambda>stmt. edge_loop DP fs S rest (finesse @ stmt))"

definition differometor_to_finesse ::
  "(string \<times> props) list \<Rightarrow> (rat \<Rightarrow> string) \<Rightarrow> Setup \<Rightarrow> error + string" where
  "differometor_to_finesse DP fs S =
     bind_err (node_loop DP fs S (nodes S) ([], None))
       (\<lambda>st. edge_loop DP fs S (edges S) (fst st @ [CHR 0x0A]))"

text \<open>
  The kinds for which the serializer has a statement, and the keyword each statement
  begins with.
\<close>

definition statement_keyword :: "(string \<times> string) list" where
  "statement_keyword =
    [(''frequency'', ''fsig(''), (''laser'', ''l ''), (''squeezer'', ''sq ''), (''mirror'', ''m ''),
     (''beamsplitter'', ''bs ''), (''free_mass'', ''free_mass ''), (''signal'', ''sgen ''),
     (''qnoised'', ''qnoised ''), (''directional_beamsplitter'', ''dbs ''),
     (''nothing'', ''nothing '')]"

text \<open>A stand-in for Python's formatting of a float, for running the serializer on
  concrete setups: numerator and denominator of the exact value.\<close>

definition fraction_str :: "rat \<Rightarrow> string" where
  "fraction_str q = str_int (fst (quotient_of q)) @ ''/'' @ str_int (snd (quotient_of q))"

text \<open>
  A node record that \<^verbatim>\<open>add\<close> accepts and for which the serializer reads a key that was never
  written: a \<^verbatim>\<open>free_mass\<close> or \<^verbatim>\<open>signal\<close> without target, a \<^verbatim>\<open>qnoised\<close> without target, port
  or direction.
\<close>

definition unserializable :: "node \<Rightarrow> bool" where
  "unserializable data =
     (((component data = ''free_mass'' \<or> component data = ''signal'') \<and> target data = None)
      \<or> (component data = ''qnoised''
          \<and> (target data = None \<or> port data = None \<or> direction data = None)))"

text \<open>What a statement of a node and of an edge looks like: the keyword of the kind first
  (nothing at all for a kind without statement), a newline last.\<close>

definition node_shape :: "string \<times> node \<Rightarrow> string \<Rightarrow> bool" where
  "node_shape nd stmt =
     (case map_of statement_keyword (component (snd nd)) of
        None \<Rightarrow> stmt = []
      | Some kw \<Rightarrow> prefix kw stmt \<and> suffix [CHR 0x0A] stmt \<and> length kw < length stmt)"

definition edge_shape :: "(string \<times> string) \<times> edge \<Rightarrow> string \<Rightarrow> bool" where
  "edge_shape e stmt =
     (prefix (''s '' @ fst (fst e) @ ''_'' @ snd (fst e) @ '' '') stmt \<and> suffix [CHR 0x0A] stmt)"

text \<open>The toy setup of the specification: a laser, a mirror and the space between them,
  defaults only.\<close>

definition toy_setup :: Setup where
  "toy_setup =
     fst (space ''l0'' ''m1'' True ''right'' ''left'' []
       (fst (add ''mirror'' ''m1'' True None None None None None None []
         (fst (add ''laser'' ''l0'' True None None None None None None [] Setup_init)))))"

text \<open>
  The conditions of lines 472 to 478, named: a length parameter that is dropped, one that
  goes to the horizontal groups, one that goes to the vertical groups, and the character
  each is filed under.
\<close>

definition dropped :: "string \<times> string \<Rightarrow> bool" where
  "dropped cp = (snd cp = ''length'' \<and> (sublist ''center'' (fst cp) \<or> sublist ''boundary'' (fst cp)))"

definition horizontal :: "string \<times> string \<Rightarrow> bool" where
  "horizontal cp =
     (snd cp = ''length'' \<and> \<not> dropped cp \<and> sublist ''mr'' (fst cp) \<and> sublist ''_ml'' (fst cp))"

definition vertical :: "string \<times> string \<Rightarrow> bool" where
  "vertical cp =
     (snd cp = ''length'' \<and> \<not> dropped cp \<and> \<not> horizontal cp
      \<and> sublist ''mt'' (fst cp) \<and> sublist ''_mb'' (fst cp))"

definition horizontal_key :: "string \<times> string \<Rightarrow> error + char" where
  "horizontal_key cp = index_m1 (hd (split (CHR ''_'') (fst cp)))"

definition vertical_key :: "string \<times> string \<Rightarrow> error + char" where
  "vertical_key cp = index_m2 (hd (split (CHR ''_'') (fst cp)))"

section \<open>Properties\<close>

subsection \<open>Splitting and merging\<close>

lemma split_nonempty: "split c s \<noteq> []"
  by (induction s) (auto split: list.splits)

lemma split_no_sep: "c \<notin> set s \<Longrightarrow> split c s = [s]"
  by (induction s) auto

lemma split_two: "c \<notin> set a \<Longrightarrow> c \<notin> set b \<Longrightarrow> split c (a @ c # b) = [a, b]"
  by (induction a) (auto simp: split_no_sep)

lemma dict_merge_Nil: "dict_merge d [] = d"
  by (simp add: dict_merge_def)

lemma dict_merge_Cons: "dict_merge d (kv # p) = dict_merge (AList.update (fst kv) (snd kv) d) p"
  by (simp add: dict_merge_def)

lemma map_of_dict_merge: "map_of (dict_merge d p) = map_of d ++ map_of (rev p)"
proof (induction p arbitrary: d)
  case Nil
  show ?case by (simp add: dict_merge_Nil)
next
  case (Cons kv p)
  have "map_of (dict_merge d (kv # p)) = (map_of d)(fst kv \<mapsto> snd kv) ++ map_of (rev p)"
    unfolding dict_merge_Cons Cons.IH update_conv' ..
  also have "\<dots> = map_of d ++ map_of (rev (kv # p))"
    by (cases kv) (simp add: fun_eq_iff map_add_def split: option.splits)
  finally show ?case .
qed

lemma dict_merge_keys:
  "\<exists>ks. map fst (dict_merge d p) = map fst d @ ks \<and> set ks = set (map fst p) - set (map fst d)
        \<and> distinct ks"
proof (induction p arbitrary: d)
  case Nil
  show ?case by (simp add: dict_merge_Nil)
next
  case (Cons kv p)
  obtain ks where ks: "map fst (dict_merge (AList.update (fst kv) (snd kv) d) p)
      = map fst (AList.update (fst kv) (snd kv) d) @ ks"
    "set ks = set (map fst p) - set (map fst (AList.update (fst kv) (snd kv) d))" "distinct ks"
    using Cons.IH by blast
  show ?case
  proof (cases "fst kv \<in> set (map fst d)")
    case True
    then show ?thesis using ks by (auto simp: dict_merge_Cons update_keys intro!: exI[of _ ks])
  next
    case False
    then show ?thesis using ks
      by (auto simp: dict_merge_Cons update_keys intro!: exI[of _ "fst kv # ks"])
  qed
qed

lemma dict_merge_known_keys:
  assumes "set (map fst p) \<subseteq> set (map fst d)"
  shows "map fst (dict_merge d p) = map fst d"
proof -
  obtain ks where ks: "map fst (dict_merge d p) = map fst d @ ks"
    "set ks = set (map fst p) - set (map fst d)"
    using dict_merge_keys[of d p] by blast
  have "set (map fst p) - set (map fst d) = {}"
    using assms by (simp only: Diff_eq_empty_iff)
  then have "ks = []" using ks(2) by (simp only: set_empty)
  then show ?thesis using ks(1) by simp
qed

lemma dict_merge_length:
  "length (dict_merge d p) = length d \<longleftrightarrow> set (map fst p) \<subseteq> set (map fst d)"
proof -
  obtain ks where ks: "map fst (dict_merge d p) = map fst d @ ks"
    "set ks = set (map fst p) - set (map fst d)"
    using dict_merge_keys[of d p] by blast
  have "length (map fst (dict_merge d p)) = length (map fst d) + length ks"
    by (simp only: ks(1) length_append)
  then have len: "length (dict_merge d p) = length d + length ks"
    by (simp only: length_map)
  have "ks = [] \<longleftrightarrow> set (map fst p) - set (map fst d) = {}"
    using ks(2) by (simp only: set_empty[symmetric])
  then have "ks = [] \<longleftrightarrow> set (map fst p) \<subseteq> set (map fst d)"
    by (simp only: Diff_eq_empty_iff)
  then show ?thesis using len by simp
qed

lemma dict_merge_distinct:
  assumes "distinct (map fst d)"
  shows "distinct (map fst (dict_merge d p))"
proof -
  obtain ks where ks: "map fst (dict_merge d p) = map fst d @ ks"
    "set ks = set (map fst p) - set (map fst d)" "distinct ks"
    using dict_merge_keys[of d p] by blast
  have "set (map fst d) \<inter> set ks = {}" unfolding ks(2) by blast
  then show ?thesis using assms ks(3) by (simp only: ks(1) distinct_append simp_thms)
qed

subsection \<open>The steps of \<^verbatim>\<open>add\<close>\<close>

lemma and_then_None [simp]: "and_then (S, None) f = f S"
  by (simp add: and_then_def)

lemma and_then_Some [simp]: "and_then (S, Some e) f = (S, Some e)"
  by (simp add: and_then_def)

lemma others_map_entry: "others k (AList.map_entry k f xs) = others k xs"
  by (induction xs) (auto simp: others_def)

lemma others_update: "others k (AList.update k v xs) = others k xs"
  by (induction xs) (auto simp: others_def)

lemma keys_map_entry: "map fst (AList.map_entry k f xs) = map fst xs"
  by (induction xs) auto

lemma has_key_keys: "has_key d k \<longleftrightarrow> k \<in> set (map fst d)"
  by (simp add: has_key_def map_of_eq_None_iff)

lemma map_entry_id: "AList.map_entry k (\<lambda>x. x) xs = xs"
  by (induction xs) auto

lemma map_entry_comp: "AList.map_entry k f (AList.map_entry k g xs) = AList.map_entry k (\<lambda>x. f (g x)) xs"
  by (induction xs) auto

lemma set_key_id: "set_key name (\<lambda>x. x) S = S"
  by (simp add: set_key_def map_entry_id)

lemma set_key_comp: "set_key name f (set_key name g S) = set_key name (\<lambda>x. f (g x)) S"
  by (simp add: set_key_def map_entry_comp)

lemma add_target_shape: "\<exists>f. fst (add_target name tg S) = set_key name f S"
  unfolding add_target_def
  by (auto split: option.splits sum.splits intro: exI[of _ "\<lambda>x. x"] simp: set_key_id)

lemma add_port_shape: "\<exists>f. fst (add_port name pt S) = set_key name f S"
  unfolding add_port_def
  by (auto split: option.splits intro: exI[of _ "\<lambda>x. x"] simp: set_key_id)

lemma add_direction_shape: "\<exists>f. fst (add_direction name dr S) = set_key name f S"
  unfolding add_direction_def
  by (auto split: option.splits intro: exI[of _ "\<lambda>x. x"] simp: set_key_id)

lemma add_auxiliary_shape: "\<exists>f. fst (add_auxiliary name ax S) = set_key name f S"
  unfolding add_auxiliary_def
  by (auto split: option.splits intro: exI[of _ "\<lambda>x. x"] simp: set_key_id)

lemma add_detector1_shape: "\<exists>f. fst (add_detector1 name d S) = set_key name f S"
  unfolding add_detector1_def
  by (auto split: option.splits intro: exI[of _ "\<lambda>x. x"] simp: set_key_id)

lemma add_detector2_shape: "\<exists>f. fst (add_detector2 name d S) = set_key name f S"
  unfolding add_detector2_def
  by (auto split: option.splits intro: exI[of _ "\<lambda>x. x"] simp: set_key_id)

lemma and_then_shape:
  assumes "\<exists>f. fst r = set_key name f S" and "\<And>S'. \<exists>f. fst (g S') = set_key name f S'"
  shows "\<exists>f. fst (and_then r g) = set_key name f S"
proof (cases r)
  case (Pair S1 eo)
  obtain f where f: "S1 = set_key name f S" using assms(1) Pair by auto
  show ?thesis
  proof (cases eo)
    case None
    obtain f' where "fst (g S1) = set_key name f' S1" using assms(2) by blast
    then show ?thesis using Pair None f by (auto simp: set_key_comp)
  next
    case (Some e)
    then show ?thesis using Pair f by auto
  qed
qed

lemma decorate_shape: "\<exists>f. fst (decorate name tg pt dr ax d1 d2 S) = set_key name f S"
  unfolding decorate_def
  by (intro and_then_shape add_target_shape add_port_shape add_direction_shape
      add_auxiliary_shape add_detector1_shape add_detector2_shape)

lemma set_key_edges [simp]: "edges (set_key name f S) = edges S"
  by (simp add: set_key_def)

lemma set_key_parameters [simp]: "parameters (set_key name f S) = parameters S"
  by (simp add: set_key_def)

lemma set_key_others [simp]: "others name (nodes (set_key name f S)) = others name (nodes S)"
  by (simp add: set_key_def others_map_entry)

lemma set_key_keys [simp]: "map fst (nodes (set_key name f S)) = map fst (nodes S)"
  by (simp add: set_key_def keys_map_entry)

lemma set_key_has_key [simp]: "has_key (nodes (set_key name f S)) n = has_key (nodes S) n"
  by (simp add: has_key_keys)

lemma store_node_edges [simp]: "edges (store_node kind name optimizable ps2 S) = edges S"
  by (simp add: store_node_def Let_def)

lemma store_node_others [simp]:
  "others name (nodes (store_node kind name optimizable ps2 S)) = others name (nodes S)"
  by (simp add: store_node_def Let_def others_update)

lemma store_node_parameters:
  "parameters (store_node kind name optimizable ps2 S) =
     parameters S @ (if kind \<noteq> ''signal'' \<and> kind \<noteq> ''frequency'' \<and> optimizable
                     then map (\<lambda>k. (name, k)) (map fst ps2) else [])"
  by (simp add: store_node_def Let_def)

lemma store_node_keys:
  "map fst (nodes (store_node kind name optimizable ps2 S)) =
     (if name \<in> set (map fst (nodes S)) then map fst (nodes S) else map fst (nodes S) @ [name])"
  by (simp add: store_node_def Let_def update_keys)

lemma store_node_has_key [simp]:
  "has_key (nodes (store_node kind name optimizable ps2 S)) n = node_known S name n"
  by (auto simp: has_key_keys store_node_keys node_known_def)

lemma store_node_lookup [simp]:
  "map_of (nodes (store_node kind name optimizable ps2 S)) name = Some (new_node kind ps2)"
  by (simp add: store_node_def Let_def update_conv')

lemma first_error_Cons:
  "first_error (x # es) = (case x of None \<Rightarrow> first_error es | Some e \<Rightarrow> Some e)"
  by (cases x) auto

lemma and_then_snd:
  assumes "\<exists>f. fst r = set_key name f S" and "\<And>f. snd (g (set_key name f S)) = snd (g S)"
  shows "snd (and_then r g) = first_error [snd r, snd (g S)]"
proof (cases r)
  case (Pair S1 eo)
  obtain f where f: "S1 = set_key name f S" using assms(1) Pair by auto
  show ?thesis using Pair f assms(2) by (cases eo) (auto simp: first_error_Cons split: option.splits)
qed

lemma add_port_snd:
  "snd (add_port name pt S) =
     (case pt of None \<Rightarrow> None
      | Some p \<Rightarrow> if p \<in> set [''left'', ''top'', ''right'', ''bottom''] then None
                  else Some InvalidEnumError)"
  by (simp add: add_port_def split: option.splits)

lemma add_direction_snd:
  "snd (add_direction name dr S) =
     (case dr of None \<Rightarrow> None
      | Some d \<Rightarrow> if d \<in> set [''in'', ''out''] then None else Some InvalidEnumError)"
  by (simp add: add_direction_def split: option.splits)

lemma add_auxiliary_snd:
  "snd (add_auxiliary name ax S) =
     (case ax of None \<Rightarrow> None
      | Some a \<Rightarrow> if in_True_False a then None else Some InvalidEnumError)"
  by (simp add: add_auxiliary_def split: option.splits)

lemma add_detector1_snd:
  "snd (add_detector1 name d S) =
     (case d of None \<Rightarrow> None
      | Some x \<Rightarrow> if has_key (nodes S) x then None else Some UnresolvedReferenceError)"
  by (simp add: add_detector1_def split: option.splits)

lemma add_detector2_snd:
  "snd (add_detector2 name d S) =
     (case d of None \<Rightarrow> None
      | Some x \<Rightarrow> if has_key (nodes S) x then None else Some UnresolvedReferenceError)"
  by (simp add: add_detector2_def split: option.splits)

lemma first_error_append:
  "first_error [first_error es, e] = first_error (es @ [e])"
  by (induction es rule: first_error.induct) auto

lemma decorate_snd:
  "snd (decorate name tg pt dr ax d1 d2 S) =
     first_error [snd (add_target name tg S), snd (add_port name pt S),
                  snd (add_direction name dr S), snd (add_auxiliary name ax S),
                  snd (add_detector1 name d1 S), snd (add_detector2 name d2 S)]"
proof -
  let ?r1 = "add_target name tg S"
  let ?r2 = "and_then ?r1 (add_port name pt)"
  let ?r3 = "and_then ?r2 (add_direction name dr)"
  let ?r4 = "and_then ?r3 (add_auxiliary name ax)"
  let ?r5 = "and_then ?r4 (add_detector1 name d1)"
  have s1: "\<exists>f. fst ?r1 = set_key name f S" by (rule add_target_shape)
  have s2: "\<exists>f. fst ?r2 = set_key name f S"
    by (intro and_then_shape add_target_shape add_port_shape)
  have s3: "\<exists>f. fst ?r3 = set_key name f S"
    by (intro and_then_shape add_target_shape add_port_shape add_direction_shape)
  have s4: "\<exists>f. fst ?r4 = set_key name f S"
    by (intro and_then_shape add_target_shape add_port_shape add_direction_shape
        add_auxiliary_shape)
  have s5: "\<exists>f. fst ?r5 = set_key name f S"
    by (intro and_then_shape add_target_shape add_port_shape add_direction_shape
        add_auxiliary_shape add_detector1_shape)
  have e2: "snd ?r2 = first_error [snd ?r1, snd (add_port name pt S)]"
    by (rule and_then_snd [OF s1]) (simp add: add_port_snd)
  have e3: "snd ?r3 = first_error [snd ?r2, snd (add_direction name dr S)]"
    by (rule and_then_snd [OF s2]) (simp add: add_direction_snd)
  have e4: "snd ?r4 = first_error [snd ?r3, snd (add_auxiliary name ax S)]"
    by (rule and_then_snd [OF s3]) (simp add: add_auxiliary_snd)
  have e5: "snd ?r5 = first_error [snd ?r4, snd (add_detector1 name d1 S)]"
    by (rule and_then_snd [OF s4]) (simp add: add_detector1_snd split: option.splits)
  have e6: "snd (and_then ?r5 (add_detector2 name d2)) =
              first_error [snd ?r5, snd (add_detector2 name d2 S)]"
    by (rule and_then_snd [OF s5]) (simp add: add_detector2_snd split: option.splits)
  show ?thesis
    unfolding decorate_def e6 e5 e4 e3 e2
    by (cases "snd ?r1"; cases "snd (add_port name pt S)"; cases "snd (add_direction name dr S)";
        cases "snd (add_auxiliary name ax S)"; cases "snd (add_detector1 name d1 S)"; simp)
qed

subsection \<open>Order of the checks before anything is stored\<close>

text \<open>
  Claim C8, as amended. For a mirror or a beamsplitter whose supplied properties contain
  both \<^verbatim>\<open>reflectivity\<close> and \<^verbatim>\<open>transmissivity\<close>, \<^verbatim>\<open>add\<close> fails and leaves the setup as it
  was, whatever the other arguments are: with the conflict error when the name has no
  separator, and with the naming error when it has one, because the name is checked first.
\<close>

theorem conflict_after_naming:
  assumes "kind = ''mirror'' \<or> kind = ''beamsplitter''"
    and "has_key ps ''reflectivity''" and "has_key ps ''transmissivity''"
  shows "add kind name optimizable tg pt dr ax d1 d2 ps S =
           (S, Some (if CHR ''_'' \<in> set name then NamingError else ConflictError))"
  using assms by (simp add: add_def checked_properties_def mirror_prepass_def)

theorem conflict_after_naming_witness:
  "add ''mirror'' ''m1'' True None None None None None None
       [(''reflectivity'', PyFloat (1 / 2)), (''transmissivity'', PyFloat (1 / 2))] Setup_init
     = (Setup_init, Some ConflictError)"
proof -
  have "has_key [(''reflectivity'', PyFloat (1 / 2)), (''transmissivity'', PyFloat (1 / 2))]
          ''reflectivity''"
    and "has_key [(''reflectivity'', PyFloat (1 / 2)), (''transmissivity'', PyFloat (1 / 2))]
          ''transmissivity''"
    by (simp_all add: has_key_def)
  then show ?thesis
    using conflict_after_naming [of "''mirror''" _ "''m1''"] by simp
qed

text \<open>
  The claim as stated fails for a name with a separator: \<^verbatim>\<open>add("mirror", "a_b",
  reflectivity=0.5, transmissivity=0.5)\<close> raises the naming error.
\<close>

theorem conflict_name_counterexample:
  "snd (add ''mirror'' ''a_b'' True None None None None None None
         [(''reflectivity'', PyFloat (1 / 2)), (''transmissivity'', PyFloat (1 / 2))] Setup_init)
     = Some NamingError"
  by (simp add: add_def checked_properties_def)

subsection \<open>Failing calls\<close>

lemma getitem_Inl: "getitem d k = Inl e \<Longrightarrow> e = PyKeyError"
  by (simp add: getitem_def split: option.splits)

lemma getitem_has_key: "getitem d k = Inr v \<Longrightarrow> has_key d k"
  by (simp add: getitem_def has_key_def split: option.splits)

lemma getitem_no_key: "getitem d k = Inl e \<Longrightarrow> \<not> has_key d k"
  by (simp add: getitem_def has_key_def split: option.splits)

lemma Edges_getitem_Inl: "Edges_getitem S t = Inl e \<Longrightarrow> e = PyKeyError \<or> e = PyUnpackError"
  by (auto simp: Edges_getitem_def split: list.splits dest: getitem_Inl)

lemma add_target_errors:
  "snd (add_target name tg S) = Some e \<Longrightarrow> e = UnresolvedReferenceError \<or> e = PyUnpackError"
  by (auto simp: add_target_def Nodes_getitem_def split: option.splits if_splits sum.splits
      dest: getitem_Inl Edges_getitem_Inl)

lemma decorate_errors:
  assumes "snd (decorate name tg pt dr ax d1 d2 S) = Some e"
  shows "e = UnresolvedReferenceError \<or> e = InvalidEnumError \<or> e = PyUnpackError"
proof (cases "snd (add_target name tg S)")
  case (Some e')
  then show ?thesis using assms add_target_errors [of name tg S e']
    by (auto simp: decorate_snd)
next
  case None
  then show ?thesis using assms
    by (simp add: decorate_snd first_error_Cons add_port_snd add_direction_snd add_auxiliary_snd
        add_detector1_snd add_detector2_snd split: option.splits if_splits)
qed

lemma checked_properties_errors:
  assumes "checked_properties kind name ps = Inl e"
  shows "e \<noteq> UnresolvedReferenceError \<and> e \<noteq> InvalidEnumError \<and> e \<noteq> PyUnpackError"
  using assms
  by (auto simp: checked_properties_def mirror_prepass_def py_truediv_def Let_def
      split: if_splits sum.splits dest: getitem_Inl)

lemma add_edges: "edges (fst (add kind name optimizable tg pt dr ax d1 d2 ps S)) = edges S"
proof (cases "checked_properties kind name ps")
  case (Inl e)
  then show ?thesis by (simp add: add_def)
next
  case (Inr ps2)
  obtain f where "fst (decorate name tg pt dr ax d1 d2 (store_node kind name optimizable ps2 S))
      = set_key name f (store_node kind name optimizable ps2 S)"
    using decorate_shape by blast
  then show ?thesis using Inr by (simp add: add_def)
qed

lemma add_others:
  "others name (nodes (fst (add kind name optimizable tg pt dr ax d1 d2 ps S)))
     = others name (nodes S)"
proof (cases "checked_properties kind name ps")
  case (Inl e)
  then show ?thesis by (simp add: add_def)
next
  case (Inr ps2)
  obtain f where "fst (decorate name tg pt dr ax d1 d2 (store_node kind name optimizable ps2 S))
      = set_key name f (store_node kind name optimizable ps2 S)"
    using decorate_shape by blast
  then show ?thesis using Inr by (simp add: add_def)
qed

lemma add_parameters:
  "parameters (fst (add kind name optimizable tg pt dr ax d1 d2 ps S)) =
     parameters S @
       (case checked_properties kind name ps of Inl e \<Rightarrow> []
        | Inr ps2 \<Rightarrow> if kind \<noteq> ''signal'' \<and> kind \<noteq> ''frequency'' \<and> optimizable
                     then map (\<lambda>k. (name, k)) (map fst ps2) else [])"
proof (cases "checked_properties kind name ps")
  case (Inl e)
  then show ?thesis by (simp add: add_def)
next
  case (Inr ps2)
  obtain f where "fst (decorate name tg pt dr ax d1 d2 (store_node kind name optimizable ps2 S))
      = set_key name f (store_node kind name optimizable ps2 S)"
    using decorate_shape by blast
  then show ?thesis using Inr by (simp add: add_def store_node_parameters)
qed

lemma add_early_error:
  assumes "snd (add kind name optimizable tg pt dr ax d1 d2 ps S) = Some e"
    and "e \<noteq> UnresolvedReferenceError" and "e \<noteq> InvalidEnumError" and "e \<noteq> PyUnpackError"
  shows "fst (add kind name optimizable tg pt dr ax d1 d2 ps S) = S"
proof (cases "checked_properties kind name ps")
  case (Inl e')
  then show ?thesis by (simp add: add_def)
next
  case (Inr ps2)
  then have "snd (decorate name tg pt dr ax d1 d2 (store_node kind name optimizable ps2 S)) = Some e"
    using assms(1) by (simp add: add_def)
  from decorate_errors [OF this] show ?thesis using assms by simp
qed

lemma space_failure:
  "snd (space source tgt optimizable sp tp ps S) \<noteq> None \<Longrightarrow>
   fst (space source tgt optimizable sp tp ps S) = S"
  by (auto simp: space_def Let_def split: if_splits sum.splits)

text \<open>
  Claim C1, as amended. A call of \<^verbatim>\<open>space\<close> that raises leaves the setup exactly as it was.
  A call of \<^verbatim>\<open>add\<close> that raises the naming, the conflict, the unknown component or the
  schema mismatch error leaves the setup exactly as it was: these are raised before
  anything is written. In every case, also when \<^verbatim>\<open>add\<close> raises while it resolves a
  reference or validates port, direction or auxiliary, the edge records and the node
  records under every other name are as before, and the parameter list has only grown at
  its end.
\<close>

theorem failed_call_frame:
  "(snd (space source tgt opt sp tp sps S) \<noteq> None \<longrightarrow>
      fst (space source tgt opt sp tp sps S) = S)
   \<and> (snd (add kind name optimizable tg pt dr ax d1 d2 ps S)
         \<in> {Some NamingError, Some ConflictError, Some UnknownComponentError,
            Some SchemaMismatchError}
       \<longrightarrow> fst (add kind name optimizable tg pt dr ax d1 d2 ps S) = S)
   \<and> edges (fst (add kind name optimizable tg pt dr ax d1 d2 ps S)) = edges S
   \<and> others name (nodes (fst (add kind name optimizable tg pt dr ax d1 d2 ps S)))
       = others name (nodes S)
   \<and> prefix (parameters S) (parameters (fst (add kind name optimizable tg pt dr ax d1 d2 ps S)))"
proof (intro conjI impI)
  assume "snd (space source tgt opt sp tp sps S) \<noteq> None"
  then show "fst (space source tgt opt sp tp sps S) = S" by (rule space_failure)
next
  assume "snd (add kind name optimizable tg pt dr ax d1 d2 ps S)
         \<in> {Some NamingError, Some ConflictError, Some UnknownComponentError,
            Some SchemaMismatchError}"
  then obtain e where "snd (add kind name optimizable tg pt dr ax d1 d2 ps S) = Some e"
    and "e \<noteq> UnresolvedReferenceError" and "e \<noteq> InvalidEnumError" and "e \<noteq> PyUnpackError"
    by auto
  then show "fst (add kind name optimizable tg pt dr ax d1 d2 ps S) = S"
    by (rule add_early_error)
next
  show "edges (fst (add kind name optimizable tg pt dr ax d1 d2 ps S)) = edges S"
    by (rule add_edges)
next
  show "others name (nodes (fst (add kind name optimizable tg pt dr ax d1 d2 ps S)))
       = others name (nodes S)"
    by (rule add_others)
next
  show "prefix (parameters S) (parameters (fst (add kind name optimizable tg pt dr ax d1 d2 ps S)))"
    by (simp add: add_parameters)
qed

theorem failed_call_frame_witness:
  "fst (space ''l0'' ''m1'' True ''right'' ''left'' [] Setup_init) = Setup_init
   \<and> fst (add ''mirror'' ''m1'' True None None None None None None
            [(''colour'', PyInt 1)] Setup_init) = Setup_init"
proof -
  have a: "snd (space ''l0'' ''m1'' True ''right'' ''left'' [] Setup_init) \<noteq> None"
    by code_simp
  have b: "snd (add ''mirror'' ''m1'' True None None None None None None
            [(''colour'', PyInt 1)] Setup_init)
          \<in> {Some NamingError, Some ConflictError, Some UnknownComponentError,
             Some SchemaMismatchError}"
    by code_simp
  show ?thesis
    using a b failed_call_frame [where source = "''l0''" and tgt = "''m1''" and sp = "''right''"
        and tp = "''left''" and S = Setup_init and kind = "''mirror''" and name = "''m1''"
        and optimizable = True and opt = True and sps = "[]" and ps = "[(''colour'', PyInt 1)]"
        and tg = None and pt = None and dr = None and ax = None and ?d1.0 = None
        and ?d2.0 = None]
    by blast
qed

text \<open>
  The claim as stated fails: \<^verbatim>\<open>add("mirror", "m1", target="zz")\<close> on an empty setup raises
  the unresolved reference error after the node \<^verbatim>\<open>m1\<close> and its three parameter entries
  have been stored (lines 107 and 109 precede line 114).
\<close>

theorem partial_add_counterexample:
  "snd (add ''mirror'' ''m1'' True (Some ''zz'') None None None None None [] Setup_init)
     = Some UnresolvedReferenceError
   \<and> map fst (nodes (fst (add ''mirror'' ''m1'' True (Some ''zz'') None None None None None []
                         Setup_init))) = [''m1'']
   \<and> parameters (fst (add ''mirror'' ''m1'' True (Some ''zz'') None None None None None []
                         Setup_init))
       = [(''m1'', ''loss''), (''m1'', ''reflectivity''), (''m1'', ''tuning'')]
   \<and> nodes Setup_init = [] \<and> parameters Setup_init = []"
  by code_simp

subsection \<open>Resolution of references\<close>

lemma underscore_append: "a @ ''_'' @ b = a @ CHR ''_'' # b"
  by simp

lemma add_target_well_formed:
  assumes "well_formed r"
  shows "snd (add_target name (Some (compound_name r)) S) =
           (if (case r of NodeRef n \<Rightarrow> has_key (nodes S) n
                | EdgeRef a b \<Rightarrow> has_key (edges S) (a, b)
                | PseudoPropertyRef n p \<Rightarrow> has_key (nodes S) n)
            then None else Some UnresolvedReferenceError)"
proof (cases r)
  case (NodeRef n)
  then show ?thesis using assms
    by (auto simp: add_target_def Nodes_getitem_def getitem_def has_key_def split: option.splits)
next
  case (EdgeRef a b)
  then have sp: "split (CHR ''_'') (a @ CHR ''_'' # b) = [a, b]"
    using assms by (simp add: split_two)
  show ?thesis using EdgeRef assms
    by (auto simp: add_target_def Edges_getitem_def getitem_def has_key_def sp
        split: option.splits)
next
  case (PseudoPropertyRef n p)
  then have sp: "split (CHR ''_'') (n @ CHR ''_'' # p) = [n, p]"
    using assms by (auto simp: split_two)
  show ?thesis using PseudoPropertyRef assms
    by (auto simp: add_target_def Nodes_getitem_def getitem_def has_key_def sp
        split: option.splits)
qed

text \<open>
  Claim C2, as amended. Take a call of \<^verbatim>\<open>add\<close> that succeeds when no target and no detector
  is supplied. With a target of one of the three well-formed shapes (a node name, an edge
  compound name, a node with pseudo-property) and with detectors, the call succeeds exactly
  when every supplied reference is known at the moment it is checked, and fails with the
  unresolved reference error otherwise. Known means: an edge stored by an earlier call; a
  node stored by an earlier call or the node that this call has just stored, since the
  record is written before the references are resolved.
\<close>

theorem reference_resolution:
  assumes "snd (add kind name optimizable None pt dr ax None None ps S) = None"
    and "opt_all well_formed tg"
  shows "snd (add kind name optimizable (map_option compound_name tg) pt dr ax d1 d2 ps S) =
           (if opt_all (ref_known S name) tg \<and> opt_all (node_known S name) d1
               \<and> opt_all (node_known S name) d2
            then None else Some UnresolvedReferenceError)"
proof (cases "checked_properties kind name ps")
  case (Inl e)
  then show ?thesis using assms(1) by (simp add: add_def)
next
  case (Inr ps2)
  let ?S2 = "store_node kind name optimizable ps2 S"
  have base: "snd (decorate name None pt dr ax None None ?S2) = None"
    using assms(1) Inr by (simp add: add_def)
  have t0: "snd (add_target name None ?S2) = None" by (simp add: add_target_def)
  have p: "snd (add_port name pt ?S2) = None"
    and d: "snd (add_direction name dr ?S2) = None"
    and a: "snd (add_auxiliary name ax ?S2) = None"
    using base unfolding decorate_snd t0
    by (auto simp: first_error_Cons split: option.splits)
  have t: "snd (add_target name (map_option compound_name tg) ?S2) =
             (if opt_all (ref_known S name) tg then None else Some UnresolvedReferenceError)"
  proof (cases tg)
    case None
    then show ?thesis by (simp add: add_target_def)
  next
    case (Some r)
    then have "well_formed r" using assms(2) by simp
    from add_target_well_formed [OF this, of name ?S2] show ?thesis
      using Some by (cases r) simp_all
  qed
  have e1: "snd (add_detector1 name d1 ?S2) =
              (if opt_all (node_known S name) d1 then None else Some UnresolvedReferenceError)"
    by (cases d1) (simp_all add: add_detector1_snd)
  have e2: "snd (add_detector2 name d2 ?S2) =
              (if opt_all (node_known S name) d2 then None else Some UnresolvedReferenceError)"
    by (cases d2) (simp_all add: add_detector2_snd)
  show ?thesis
    using Inr by (simp add: add_def decorate_snd t p d a e1 e2)
qed

theorem reference_resolution_witness:
  "snd (add ''free_mass'' ''sus'' True (Some ''m1'') None None None None None []
         (fst (add ''mirror'' ''m1'' True None None None None None None [] Setup_init))) = None"
proof -
  have base: "snd (add ''free_mass'' ''sus'' True None None None None None None []
         (fst (add ''mirror'' ''m1'' True None None None None None None [] Setup_init))) = None"
    by code_simp
  have wf: "opt_all well_formed (Some (NodeRef ''m1''))" by simp
  have known: "ref_known (fst (add ''mirror'' ''m1'' True None None None None None None []
                 Setup_init)) ''sus'' (NodeRef ''m1'')"
    by code_simp
  show ?thesis
    using reference_resolution [OF base wf, of None None] known by simp
qed

text \<open>
  The claim as stated fails: \<^verbatim>\<open>add("free_mass", "x", target="x")\<close> on an empty setup
  succeeds, although no earlier call has constructed \<^verbatim>\<open>x\<close>.
\<close>

theorem self_reference_counterexample:
  "snd (add ''free_mass'' ''x'' True (Some ''x'') None None None None None [] Setup_init) = None
   \<and> nodes Setup_init = []"
  by code_simp

subsection \<open>The structural invariant\<close>

lemma keeps_record_id: "keeps_record (\<lambda>x. x)"
  by (simp add: keeps_record_def)

lemma keeps_record_comp: "keeps_record f \<Longrightarrow> keeps_record g \<Longrightarrow> keeps_record (\<lambda>x. f (g x))"
  by (simp add: keeps_record_def)

lemma keeps_same: "\<exists>f. S = set_key name f S \<and> keeps_record f"
  by (rule exI[of _ "\<lambda>x. x"]) (simp add: set_key_id keeps_record_id)

lemma keeps_set: "keeps_record g \<Longrightarrow> \<exists>f. set_key name g S = set_key name f S \<and> keeps_record f"
  by blast

lemma keeps_target: "keeps_record (\<lambda>n. n\<lparr>target := t\<rparr>)"
  by (simp add: keeps_record_def)

lemma keeps_target_property: "keeps_record (\<lambda>n. n\<lparr>target := t, target_property := q\<rparr>)"
  by (simp add: keeps_record_def)

lemma keeps_port: "keeps_record (\<lambda>n. n\<lparr>port := t\<rparr>)"
  by (simp add: keeps_record_def)

lemma keeps_direction: "keeps_record (\<lambda>n. n\<lparr>direction := t\<rparr>)"
  by (simp add: keeps_record_def)

lemma keeps_auxiliary: "keeps_record (\<lambda>n. n\<lparr>auxiliary := t\<rparr>)"
  by (simp add: keeps_record_def)

lemma keeps_detector1: "keeps_record (\<lambda>n. n\<lparr>detector1 := t\<rparr>)"
  by (simp add: keeps_record_def)

lemma keeps_detector2: "keeps_record (\<lambda>n. n\<lparr>detector2 := t\<rparr>)"
  by (simp add: keeps_record_def)

lemmas keeps_intros = keeps_same keeps_set keeps_target keeps_target_property keeps_port
  keeps_direction keeps_auxiliary keeps_detector1 keeps_detector2

lemma add_target_keeps: "\<exists>f. fst (add_target name tg S) = set_key name f S \<and> keeps_record f"
  unfolding add_target_def
  by (auto split: option.splits sum.splits intro!: keeps_intros)

lemma add_port_keeps: "\<exists>f. fst (add_port name pt S) = set_key name f S \<and> keeps_record f"
  unfolding add_port_def
  by (auto split: option.splits intro!: keeps_intros)

lemma add_direction_keeps:
  "\<exists>f. fst (add_direction name dr S) = set_key name f S \<and> keeps_record f"
  unfolding add_direction_def
  by (auto split: option.splits intro!: keeps_intros)

lemma add_auxiliary_keeps:
  "\<exists>f. fst (add_auxiliary name ax S) = set_key name f S \<and> keeps_record f"
  unfolding add_auxiliary_def
  by (auto split: option.splits intro!: keeps_intros)

lemma add_detector1_keeps:
  "\<exists>f. fst (add_detector1 name d S) = set_key name f S \<and> keeps_record f"
  unfolding add_detector1_def
  by (auto split: option.splits intro!: keeps_intros)

lemma add_detector2_keeps:
  "\<exists>f. fst (add_detector2 name d S) = set_key name f S \<and> keeps_record f"
  unfolding add_detector2_def
  by (auto split: option.splits intro!: keeps_intros)

lemma and_then_keeps:
  assumes "\<exists>f. fst r = set_key name f S \<and> keeps_record f"
    and "\<And>S'. \<exists>f. fst (g S') = set_key name f S' \<and> keeps_record f"
  shows "\<exists>f. fst (and_then r g) = set_key name f S \<and> keeps_record f"
proof (cases r)
  case (Pair S1 eo)
  obtain f where f: "S1 = set_key name f S" "keeps_record f" using assms(1) Pair by auto
  show ?thesis
  proof (cases eo)
    case None
    obtain f' where f': "fst (g S1) = set_key name f' S1" "keeps_record f'"
      using assms(2) by blast
    have "fst (and_then r g) = set_key name (\<lambda>x. f' (f x)) S"
      using Pair None f f' by (simp add: set_key_comp)
    then show ?thesis using keeps_record_comp [OF f'(2) f(2)] by blast
  next
    case (Some e)
    then show ?thesis using Pair f by auto
  qed
qed

lemma decorate_keeps:
  "\<exists>f. fst (decorate name tg pt dr ax d1 d2 S) = set_key name f S \<and> keeps_record f"
  unfolding decorate_def
  by (intro and_then_keeps add_target_keeps add_port_keeps add_direction_keeps
      add_auxiliary_keeps add_detector1_keeps add_detector2_keeps)

lemma set_key_lookup:
  "map_of (nodes (set_key name f S)) name = map_option f (map_of (nodes S) name)"
  by (simp add: set_key_def map_of_map_entry split: option.splits)

text \<open>The record found under the name after a call that got past the checks: the kind
  and the merged properties are those stored at line 109.\<close>

lemma add_stored:
  assumes "checked_properties kind name ps = Inr ps2"
  shows "\<exists>n. map_of (nodes (fst (add kind name optimizable tg pt dr ax d1 d2 ps S))) name = Some n
            \<and> component n = kind \<and> properties n = ps2"
proof -
  obtain f where f: "fst (decorate name tg pt dr ax d1 d2 (store_node kind name optimizable ps2 S))
      = set_key name f (store_node kind name optimizable ps2 S)" "keeps_record f"
    using decorate_keeps by blast
  have "map_of (nodes (fst (add kind name optimizable tg pt dr ax d1 d2 ps S))) name
          = Some (f (new_node kind ps2))"
    using assms f(1) by (simp add: add_def set_key_lookup)
  moreover have "component (f (new_node kind ps2)) = kind"
    and "properties (f (new_node kind ps2)) = ps2"
    using f(2) by (simp_all add: keeps_record_def new_node_def)
  ultimately show ?thesis by blast
qed

lemma add_success_checked:
  "snd (add kind name optimizable tg pt dr ax d1 d2 ps S) = None \<Longrightarrow>
   \<exists>ps2. checked_properties kind name ps = Inr ps2"
  by (cases "checked_properties kind name ps") (auto simp: add_def)

lemma checked_properties_name:
  "checked_properties kind name ps = Inr ps2 \<Longrightarrow> CHR ''_'' \<notin> set name"
  by (simp add: checked_properties_def split: if_splits)

lemma add_keys:
  "map fst (nodes (fst (add kind name optimizable tg pt dr ax d1 d2 ps S))) =
     (case checked_properties kind name ps of Inl e \<Rightarrow> map fst (nodes S)
      | Inr ps2 \<Rightarrow> if name \<in> set (map fst (nodes S)) then map fst (nodes S)
                   else map fst (nodes S) @ [name])"
proof (cases "checked_properties kind name ps")
  case (Inl e)
  then show ?thesis by (simp add: add_def)
next
  case (Inr ps2)
  obtain f where "fst (decorate name tg pt dr ax d1 d2 (store_node kind name optimizable ps2 S))
      = set_key name f (store_node kind name optimizable ps2 S)"
    using decorate_shape by blast
  then show ?thesis using Inr by (simp add: add_def store_node_keys)
qed

lemma add_invariant:
  assumes "store_invariant S"
  shows "store_invariant (fst (add kind name optimizable tg pt dr ax d1 d2 ps S))"
proof (cases "checked_properties kind name ps")
  case (Inl e)
  then show ?thesis using assms by (simp add: add_def)
next
  case (Inr ps2)
  then have "CHR ''_'' \<notin> set name" by (rule checked_properties_name)
  then show ?thesis using assms Inr
    by (simp add: store_invariant_def add_keys add_edges)
qed

lemma space_nodes: "nodes (fst (space source tgt opt sp tp sps S)) = nodes S"
  by (simp add: space_def Let_def split: sum.splits)

lemma space_others:
  "others (source, tgt) (edges (fst (space source tgt opt sp tp sps S)))
     = others (source, tgt) (edges S)"
  by (simp add: space_def Let_def others_update split: sum.splits)

lemma space_invariant:
  assumes "store_invariant S"
  shows "store_invariant (fst (space source tgt opt sp tp sps S))"
  using assms
  by (simp add: store_invariant_def space_def Let_def distinct_update split: sum.splits)

lemma space_stored:
  assumes "snd (space source tgt opt sp tp sps S) = None"
  shows "\<exists>e. map_of (edges (fst (space source tgt opt sp tp sps S))) (source, tgt) = Some e
            \<and> source_port e = sp \<and> target_port e = tp"
  using assms
  by (auto simp: space_def Let_def update_conv' split: sum.splits if_splits)

lemma add_keys_prefix:
  "prefix (map fst (nodes S))
     (map fst (nodes (fst (add kind name optimizable tg pt dr ax d1 d2 ps S))))"
  by (simp add: add_keys split: sum.splits)

lemma add_component:
  assumes "snd (add kind name optimizable tg pt dr ax d1 d2 ps S) = None"
  shows "map_option component
           (map_of (nodes (fst (add kind name optimizable tg pt dr ax d1 d2 ps S))) name)
         = Some kind"
proof -
  obtain ps2 where "checked_properties kind name ps = Inr ps2"
    using add_success_checked [OF assms] by blast
  from add_stored [OF this, of optimizable tg pt dr ax d1 d2 S] show ?thesis by auto
qed

lemma space_ports:
  assumes "snd (space source tgt opt sp tp sps S) = None"
  shows "map_option source_port
           (map_of (edges (fst (space source tgt opt sp tp sps S))) (source, tgt)) = Some sp
       \<and> map_option target_port
           (map_of (edges (fst (space source tgt opt sp tp sps S))) (source, tgt)) = Some tp"
  using space_stored [OF assms] by auto

lemma add_own_record:
  assumes "snd (add kind name optimizable tg pt dr ax d1 d2 ps S) = None"
  shows "\<exists>n. map_of (nodes (fst (add kind name optimizable tg pt dr ax d1 d2 ps S))) name = Some n
            \<and> component n = kind \<and> checked_properties kind name ps = Inr (properties n)"
proof -
  obtain ps2 where c: "checked_properties kind name ps = Inr ps2"
    using add_success_checked [OF assms] by blast
  from add_stored [OF c, of optimizable tg pt dr ax d1 d2 S] c show ?thesis by auto
qed

lemma add_keys_in_place:
  assumes "has_key (nodes S) name"
  shows "map fst (nodes (fst (add kind name optimizable tg pt dr ax d1 d2 ps S)))
           = map fst (nodes S)"
  using assms by (simp add: add_keys has_key_keys split: sum.splits)

lemma space_own_record:
  assumes "snd (space source tgt opt sp tp sps S) = None"
  shows "map_of (edges (fst (space source tgt opt sp tp sps S))) (source, tgt) =
           Some \<lparr>edge_properties =
                   dict_merge [(''length'', PyInt 0), (''refractive_index'', PyFloat 1)] sps,
                 source_port = sp, target_port = tp\<rparr>"
proof -
  have d: "getitem default_properties ''space'' =
             Inr [(''length'', PyInt 0), (''refractive_index'', PyFloat 1)]"
    by (simp add: getitem_def default_properties_def)
  show ?thesis
    using assms unfolding space_def d
    by (auto simp: Let_def update_conv' split: if_splits)
qed

lemma space_keys:
  "map fst (edges (fst (space source tgt opt sp tp sps S))) =
     (if snd (space source tgt opt sp tp sps S) = None \<and> \<not> has_key (edges S) (source, tgt)
      then map fst (edges S) @ [(source, tgt)] else map fst (edges S))"
proof -
  have d: "getitem default_properties ''space'' =
             Inr [(''length'', PyInt 0), (''refractive_index'', PyFloat 1)]"
    by (simp add: getitem_def default_properties_def)
  show ?thesis
    unfolding space_def d
    by (auto simp: Let_def update_keys has_key_keys split: if_splits)
qed

lemma space_keys_prefix:
  "prefix (map fst (edges S)) (map fst (edges (fst (space source tgt opt sp tp sps S))))"
  by (simp add: space_keys)

lemma space_keys_in_place:
  "has_key (edges S) (source, tgt) \<Longrightarrow>
   map fst (edges (fst (space source tgt opt sp tp sps S))) = map fst (edges S)"
  by (simp add: space_keys)

text \<open>
  Claim C9, as amended. The empty setup satisfies the structural invariant (node names
  distinct and free of the separator, edge keys distinct), and every call of \<^verbatim>\<open>add\<close> or
  \<^verbatim>\<open>space\<close> keeps it. A call of \<^verbatim>\<open>add\<close> leaves the edge records and the node records under
  all other names as they were; a call of \<^verbatim>\<open>space\<close> leaves the node records and the edge
  records under all other keys as they were; both keep the order of the keys that are
  present, and a key that is present keeps its position. After a successful call the
  record under the key of the call is the call's own, also when the key was taken before:
  for \<^verbatim>\<open>add\<close> the kind and the merged properties of the call, for \<^verbatim>\<open>space\<close> the merged
  properties and the ports of the call.
\<close>

theorem write_once_frame:
  "store_invariant Setup_init
   \<and> (store_invariant S \<longrightarrow>
        store_invariant (fst (add kind name optimizable tg pt dr ax d1 d2 ps S))
        \<and> store_invariant (fst (space source tgt opt sp tp sps S)))
   \<and> others name (nodes (fst (add kind name optimizable tg pt dr ax d1 d2 ps S)))
       = others name (nodes S)
   \<and> prefix (map fst (nodes S))
       (map fst (nodes (fst (add kind name optimizable tg pt dr ax d1 d2 ps S))))
   \<and> (has_key (nodes S) name \<longrightarrow>
        map fst (nodes (fst (add kind name optimizable tg pt dr ax d1 d2 ps S)))
          = map fst (nodes S))
   \<and> edges (fst (add kind name optimizable tg pt dr ax d1 d2 ps S)) = edges S
   \<and> nodes (fst (space source tgt opt sp tp sps S)) = nodes S
   \<and> others (source, tgt) (edges (fst (space source tgt opt sp tp sps S)))
       = others (source, tgt) (edges S)
   \<and> prefix (map fst (edges S)) (map fst (edges (fst (space source tgt opt sp tp sps S))))
   \<and> (has_key (edges S) (source, tgt) \<longrightarrow>
        map fst (edges (fst (space source tgt opt sp tp sps S))) = map fst (edges S))
   \<and> (snd (add kind name optimizable tg pt dr ax d1 d2 ps S) = None \<longrightarrow>
        (\<exists>n. map_of (nodes (fst (add kind name optimizable tg pt dr ax d1 d2 ps S))) name
                = Some n
             \<and> component n = kind
             \<and> checked_properties kind name ps = Inr (properties n)))
   \<and> (snd (space source tgt opt sp tp sps S) = None \<longrightarrow>
        map_of (edges (fst (space source tgt opt sp tp sps S))) (source, tgt) =
          Some \<lparr>edge_properties =
                  dict_merge [(''length'', PyInt 0), (''refractive_index'', PyFloat 1)] sps,
                source_port = sp, target_port = tp\<rparr>)"
proof (intro conjI impI)
  show "store_invariant Setup_init" by (simp add: store_invariant_def Setup_init_def)
next
  assume "store_invariant S"
  then show "store_invariant (fst (add kind name optimizable tg pt dr ax d1 d2 ps S))"
    by (rule add_invariant)
next
  assume "store_invariant S"
  then show "store_invariant (fst (space source tgt opt sp tp sps S))"
    by (rule space_invariant)
next
  show "others name (nodes (fst (add kind name optimizable tg pt dr ax d1 d2 ps S)))
       = others name (nodes S)" by (rule add_others)
next
  show "prefix (map fst (nodes S))
       (map fst (nodes (fst (add kind name optimizable tg pt dr ax d1 d2 ps S))))"
    by (rule add_keys_prefix)
next
  assume "has_key (nodes S) name"
  then show "map fst (nodes (fst (add kind name optimizable tg pt dr ax d1 d2 ps S)))
          = map fst (nodes S)" by (rule add_keys_in_place)
next
  show "edges (fst (add kind name optimizable tg pt dr ax d1 d2 ps S)) = edges S"
    by (rule add_edges)
next
  show "nodes (fst (space source tgt opt sp tp sps S)) = nodes S" by (rule space_nodes)
next
  show "others (source, tgt) (edges (fst (space source tgt opt sp tp sps S)))
       = others (source, tgt) (edges S)" by (rule space_others)
next
  show "prefix (map fst (edges S)) (map fst (edges (fst (space source tgt opt sp tp sps S))))"
    by (rule space_keys_prefix)
next
  assume "has_key (edges S) (source, tgt)"
  then show "map fst (edges (fst (space source tgt opt sp tp sps S))) = map fst (edges S)"
    by (rule space_keys_in_place)
next
  assume "snd (add kind name optimizable tg pt dr ax d1 d2 ps S) = None"
  then show "\<exists>n. map_of (nodes (fst (add kind name optimizable tg pt dr ax d1 d2 ps S))) name
                = Some n
             \<and> component n = kind
             \<and> checked_properties kind name ps = Inr (properties n)"
    by (rule add_own_record)
next
  assume "snd (space source tgt opt sp tp sps S) = None"
  then show "map_of (edges (fst (space source tgt opt sp tp sps S))) (source, tgt) =
          Some \<lparr>edge_properties =
                  dict_merge [(''length'', PyInt 0), (''refractive_index'', PyFloat 1)] sps,
                source_port = sp, target_port = tp\<rparr>"
    by (rule space_own_record)
qed

text \<open>
  An instance with both kinds of overwriting: in the setup that holds the laser \<^verbatim>\<open>l0\<close> and
  the space from \<^verbatim>\<open>l0\<close> to \<^verbatim>\<open>l0\<close>, a second \<^verbatim>\<open>add\<close> under the name \<^verbatim>\<open>l0\<close> and a second
  \<^verbatim>\<open>space\<close> for the same pair.
\<close>

theorem write_once_frame_witness:
  "store_invariant
     (fst (add ''mirror'' ''l0'' True None None None None None None []
       (fst (space ''l0'' ''l0'' True ''right'' ''left'' []
         (fst (add ''laser'' ''l0'' True None None None None None None [] Setup_init))))))
   \<and> map fst (nodes
       (fst (add ''mirror'' ''l0'' True None None None None None None []
         (fst (space ''l0'' ''l0'' True ''right'' ''left'' []
           (fst (add ''laser'' ''l0'' True None None None None None None [] Setup_init)))))))
      = [''l0'']
   \<and> (\<exists>n. map_of (nodes
         (fst (add ''mirror'' ''l0'' True None None None None None None []
           (fst (space ''l0'' ''l0'' True ''right'' ''left'' []
             (fst (add ''laser'' ''l0'' True None None None None None None [] Setup_init)))))))
         ''l0'' = Some n
        \<and> component n = ''mirror''
        \<and> checked_properties ''mirror'' ''l0'' [] = Inr (properties n))
   \<and> map fst (edges
       (fst (space ''l0'' ''l0'' True ''top'' ''bottom'' [(''length'', PyInt 3)]
         (fst (space ''l0'' ''l0'' True ''right'' ''left'' []
           (fst (add ''laser'' ''l0'' True None None None None None None [] Setup_init)))))))
      = [(''l0'', ''l0'')]
   \<and> map_of (edges
       (fst (space ''l0'' ''l0'' True ''top'' ''bottom'' [(''length'', PyInt 3)]
         (fst (space ''l0'' ''l0'' True ''right'' ''left'' []
           (fst (add ''laser'' ''l0'' True None None None None None None [] Setup_init)))))))
       (''l0'', ''l0'')
      = Some \<lparr>edge_properties =
                dict_merge [(''length'', PyInt 0), (''refractive_index'', PyFloat 1)]
                  [(''length'', PyInt 3)],
              source_port = ''top'', target_port = ''bottom''\<rparr>"
proof -
  let ?S1 = "fst (add ''laser'' ''l0'' True None None None None None None [] Setup_init)"
  let ?S2 = "fst (space ''l0'' ''l0'' True ''right'' ''left'' [] ?S1)"
  have i0: "store_invariant Setup_init" using write_once_frame by blast
  have i1: "store_invariant ?S1"
    using i0 write_once_frame [where S = Setup_init and kind = "''laser''" and name = "''l0''"
        and optimizable = True and tg = None and pt = None and dr = None and ax = None
        and ?d1.0 = None and ?d2.0 = None and ps = "[]"] by blast
  have i2: "store_invariant ?S2"
    using i1 write_once_frame [where S = ?S1 and source = "''l0''" and tgt = "''l0''"
        and opt = True and sp = "''right''" and tp = "''left''" and sps = "[]"] by blast
  have hn: "has_key (nodes ?S2) ''l0''" by code_simp
  have he: "has_key (edges ?S2) (''l0'', ''l0'')" by code_simp
  have kn: "map fst (nodes ?S2) = [''l0'']" by code_simp
  have ke: "map fst (edges ?S2) = [(''l0'', ''l0'')]" by code_simp
  have a: "snd (add ''mirror'' ''l0'' True None None None None None None [] ?S2) = None"
    by code_simp
  have s: "snd (space ''l0'' ''l0'' True ''top'' ''bottom'' [(''length'', PyInt 3)] ?S2) = None"
    by code_simp
  note w = write_once_frame [where S = ?S2 and kind = "''mirror''" and name = "''l0''"
        and optimizable = True and tg = None and pt = None and dr = None and ax = None
        and ?d1.0 = None and ?d2.0 = None and ps = "[]" and source = "''l0''"
        and tgt = "''l0''" and opt = True and sp = "''top''" and tp = "''bottom''"
        and sps = "[(''length'', PyInt 3)]"]
  have 1: "store_invariant (fst (add ''mirror'' ''l0'' True None None None None None None []
             ?S2))" using w i2 by blast
  have 2: "map fst (nodes (fst (add ''mirror'' ''l0'' True None None None None None None []
             ?S2))) = [''l0'']" using w hn kn by simp
  have 3: "\<exists>n. map_of (nodes (fst (add ''mirror'' ''l0'' True None None None None None None []
             ?S2))) ''l0'' = Some n \<and> component n = ''mirror''
             \<and> checked_properties ''mirror'' ''l0'' [] = Inr (properties n)"
    using w a by blast
  have 4: "map fst (edges (fst (space ''l0'' ''l0'' True ''top'' ''bottom''
             [(''length'', PyInt 3)] ?S2))) = [(''l0'', ''l0'')]" using w he ke by simp
  have 5: "map_of (edges (fst (space ''l0'' ''l0'' True ''top'' ''bottom''
             [(''length'', PyInt 3)] ?S2))) (''l0'', ''l0'')
      = Some \<lparr>edge_properties =
                dict_merge [(''length'', PyInt 0), (''refractive_index'', PyFloat 1)]
                  [(''length'', PyInt 3)],
              source_port = ''top'', target_port = ''bottom''\<rparr>" using w s by blast
  show ?thesis using 1 2 3 4 5 by blast
qed

text \<open>
  The claim as stated fails: a second \<^verbatim>\<open>add\<close> under a name that is taken succeeds and
  replaces the record. After \<^verbatim>\<open>add("laser", "l0")\<close> and \<^verbatim>\<open>add("mirror", "l0")\<close> the node
  \<^verbatim>\<open>l0\<close> is a mirror.
\<close>

theorem replaced_record_counterexample:
  "snd (add ''mirror'' ''l0'' True None None None None None None []
         (fst (add ''laser'' ''l0'' True None None None None None None [] Setup_init))) = None
   \<and> map_option component
        (map_of (nodes (fst (add ''laser'' ''l0'' True None None None None None None []
                              Setup_init))) ''l0'') = Some ''laser''
   \<and> map_option component
        (map_of (nodes (fst (add ''mirror'' ''l0'' True None None None None None None []
           (fst (add ''laser'' ''l0'' True None None None None None None [] Setup_init)))))
           ''l0'') = Some ''mirror''"
  by code_simp

subsection \<open>The parameter list\<close>

lemma getitem_Inr: "getitem d k = Inr v \<longleftrightarrow> map_of d k = Some v"
  by (simp add: getitem_def split: option.splits)

lemma checked_properties_keys:
  assumes "checked_properties kind name ps = Inr ps2"
  shows "map fst ps2 = schema kind"
proof -
  obtain ps1 d where d: "getitem default_properties kind = Inr d"
    and ps2: "ps2 = dict_merge d ps1" and len: "length (dict_merge d ps1) = length d"
    using assms
    by (auto simp: checked_properties_def Let_def split: if_splits sum.splits)
  have "map fst ps2 = map fst d"
    using len unfolding ps2 dict_merge_length by (rule dict_merge_known_keys)
  then show ?thesis using d by (simp add: schema_def getitem_Inr)
qed

lemma add_success_parameters:
  assumes "add kind name optimizable tg pt dr ax d1 d2 ps S = (S', None)"
  shows "parameters S' = parameters S @ spec_entries (Add kind name optimizable tg pt dr ax d1 d2 ps)"
proof -
  have "snd (add kind name optimizable tg pt dr ax d1 d2 ps S) = None" using assms by simp
  then obtain ps2 where c: "checked_properties kind name ps = Inr ps2"
    using add_success_checked by blast
  have "parameters S' = parameters (fst (add kind name optimizable tg pt dr ax d1 d2 ps S))"
    using assms by simp
  then show ?thesis
    unfolding add_parameters using c checked_properties_keys [OF c] by auto
qed

lemma space_success_parameters:
  assumes "space source tgt optimizable sp tp ps S = (S', None)"
  shows "parameters S' = parameters S @ spec_entries (Space source tgt optimizable sp tp ps)"
proof -
  obtain d where d: "getitem default_properties ''space'' = Inr d"
    by (simp add: getitem_def default_properties_def)
  have len: "length (dict_merge d ps) = length d"
    using assms d by (auto simp: space_def Let_def split: if_splits)
  have "map fst (dict_merge d ps) = schema ''space''"
    using len d unfolding dict_merge_length
    by (simp add: dict_merge_known_keys schema_def getitem_Inr)
  then show ?thesis
    using assms d len by (auto simp: space_def Let_def split: if_splits)
qed

lemma run_call_parameters:
  "run_call c S = (S', None) \<Longrightarrow> parameters S' = parameters S @ spec_entries c"
  by (cases c) (simp_all add: add_success_parameters space_success_parameters)

lemma construct_parameters:
  "construct calls S0 = Inr S \<Longrightarrow> parameters S = parameters S0 @ concat (map spec_entries calls)"
proof (induction calls arbitrary: S0)
  case Nil
  then show ?case by simp
next
  case (Cons c cs)
  obtain S1 eo where r: "run_call c S0 = (S1, eo)" by (cases "run_call c S0")
  with Cons.prems have eo: "eo = None" and rest: "construct cs S1 = Inr S"
    by (auto split: option.splits)
  from run_call_parameters [of c S0 S1] r eo
  have "parameters S1 = parameters S0 @ spec_entries c" by simp
  with Cons.IH [OF rest] show ?case by simp
qed

text \<open>
  Claim C5. After a sequence of construction calls that all succeed, starting from the
  empty setup, the parameter list is the concatenation, in the order of the calls, of what
  the specification lets each call contribute; so its length is the sum of the schema sizes
  of the optimizable calls.
\<close>

theorem parameter_list_construction:
  assumes "construct calls Setup_init = Inr S"
  shows "parameters S = concat (map spec_entries calls)
       \<and> length (parameters S) = sum_list (map (\<lambda>c. length (spec_entries c)) calls)"
proof -
  have "parameters S = concat (map spec_entries calls)"
    using construct_parameters [OF assms] by (simp add: Setup_init_def)
  then show ?thesis by (simp add: length_concat comp_def)
qed

theorem parameter_list_construction_witness:
  "parameters (fst (space ''l0'' ''m1'' True ''right'' ''left'' []
      (fst (add ''signal'' ''s1'' True None None None None None None []
        (fst (add ''mirror'' ''m1'' True None None None None None None []
          (fst (add ''laser'' ''l0'' True None None None None None None [] Setup_init)))))))) =
    [(''l0'', ''power''), (''l0'', ''phase''), (''m1'', ''loss''), (''m1'', ''reflectivity''),
     (''m1'', ''tuning''), (''l0_m1'', ''length''), (''l0_m1'', ''refractive_index'')]"
proof -
  have c: "construct
      [Add ''laser'' ''l0'' True None None None None None None [],
       Add ''mirror'' ''m1'' True None None None None None None [],
       Add ''signal'' ''s1'' True None None None None None None [],
       Space ''l0'' ''m1'' True ''right'' ''left'' []] Setup_init =
    Inr (fst (space ''l0'' ''m1'' True ''right'' ''left'' []
      (fst (add ''signal'' ''s1'' True None None None None None None []
        (fst (add ''mirror'' ''m1'' True None None None None None None []
          (fst (add ''laser'' ''l0'' True None None None None None None [] Setup_init)))))))) "
    by code_simp
  have e: "concat (map spec_entries
      [Add ''laser'' ''l0'' True None None None None None None [],
       Add ''mirror'' ''m1'' True None None None None None None [],
       Add ''signal'' ''s1'' True None None None None None None [],
       Space ''l0'' ''m1'' True ''right'' ''left'' []]) =
    [(''l0'', ''power''), (''l0'', ''phase''), (''m1'', ''loss''), (''m1'', ''reflectivity''),
     (''m1'', ''tuning''), (''l0_m1'', ''length''), (''l0_m1'', ''refractive_index'')]"
    by code_simp
  show ?thesis
    using parameter_list_construction [OF c] e by simp
qed

subsection \<open>Merged records\<close>

lemma map_of_rev_distinct: "distinct (map fst xs) \<Longrightarrow> map_of (rev xs) = map_of xs"
proof (induction xs)
  case Nil
  show ?case by simp
next
  case (Cons x xs)
  then have "fst x \<notin> dom (map_of xs)" by (simp add: dom_map_of_conv_image_fst)
  then have "map_of xs (fst x) = None" by blast
  then show ?case using Cons
    by (cases x) (auto simp: fun_eq_iff map_add_def split: option.splits)
qed

lemma map_of_dict_merge_distinct:
  "distinct (map fst p) \<Longrightarrow> map_of (dict_merge d p) = map_of d ++ map_of p"
  by (simp add: map_of_dict_merge map_of_rev_distinct)

lemma num_val_py_sub: "num_val (py_sub a b) = num_val a - num_val b"
  by (cases a; cases b) simp_all

lemma num_val_py_mul: "num_val (py_mul a b) = num_val a * num_val b"
  by (cases a; cases b) simp_all

lemma decorate_nothing: "decorate name None None None None None None S = (S, None)"
  by (simp add: decorate_def add_target_def add_port_def add_direction_def add_auxiliary_def
      add_detector1_def add_detector2_def)

lemma default_record_distinct:
  "map_of default_properties kind = Some d \<Longrightarrow> distinct (map fst d)"
  by (auto simp: default_properties_def split: if_splits)

lemma mirror_record:
  assumes "kind = ''mirror'' \<or> kind = ''beamsplitter''"
    and "map_of default_properties kind = Some d"
  shows "map_of d ''loss'' \<noteq> None" and "map_of d ''reflectivity'' \<noteq> None"
    and "''transmissivity'' \<notin> set (map fst d)"
  using assms by (auto simp: default_properties_def)


lemma checked_properties_after_prepass:
  assumes "map_of default_properties kind = Some d" and "CHR ''_'' \<notin> set name"
    and "mirror_prepass kind ps = Inr ps1"
  shows "checked_properties kind name ps =
           (if set (map fst ps1) \<subseteq> set (map fst d) then Inr (dict_merge d ps1)
            else Inl SchemaMismatchError)"
  using assms
  by (simp add: checked_properties_def getitem_def Let_def dict_merge_length)


lemma add_checked_plain:
  "checked_properties kind name ps = Inr ps2 \<Longrightarrow>
   add kind name optimizable None None None None None None ps S =
     (store_node kind name optimizable ps2 S, None)"
  by (simp add: add_def decorate_nothing)


lemma mirror_prepass_transmissivity:
  assumes "kind = ''mirror'' \<or> kind = ''beamsplitter''"
    and "map_of default_properties kind = Some d"
    and "distinct (map fst ps)"
    and "map_of ps ''transmissivity'' = Some t"
    and "\<not> has_key ps ''reflectivity''"
    and "(map_of d ++ map_of ps) ''loss'' = Some l"
  shows "mirror_prepass kind ps =
           (if num_val l = 1 then Inl PyZeroDivisionError
            else Inr (AList.update ''reflectivity''
                       (PyFloat ((1 - num_val t - num_val l) / (1 - num_val l)))
                       (AList.delete ''transmissivity'' (dict_merge d ps))))"
proof -
  have m: "map_of (dict_merge d ps) = map_of d ++ map_of ps"
    using assms(3) by (rule map_of_dict_merge_distinct)
  have t: "map_of (dict_merge d ps) ''transmissivity'' = Some t"
    unfolding m using assms(4) by (simp add: map_add_def)
  have l: "map_of (AList.delete ''transmissivity'' (dict_merge d ps)) ''loss'' = Some l"
    unfolding delete_conv' m using assms(6) by simp
  have h: "has_key ps ''transmissivity''" using assms(4) by (simp add: has_key_def)
  show ?thesis
    using assms(1,2,5) h t l
    by (simp add: mirror_prepass_def getitem_def Let_def py_truediv_def num_val_py_sub)
qed








lemma dict_merge_key_set:
  "set (map fst (dict_merge d p)) = set (map fst d) \<union> set (map fst p)"
proof -
  obtain ks where "map fst (dict_merge d p) = map fst d @ ks"
    "set ks = set (map fst p) - set (map fst d)"
    using dict_merge_keys [of d p] by blast
  then show ?thesis by auto
qed

lemma has_key_dict_merge: "has_key (dict_merge d p) k \<longleftrightarrow> has_key d k \<or> has_key p k"
  by (simp add: has_key_keys dict_merge_key_set del: set_map)

lemma has_key_delete: "has_key (AList.delete k' al) k \<longleftrightarrow> has_key al k \<and> k \<noteq> k'"
  by (auto simp: has_key_def delete_conv')

lemma has_key_update: "has_key (AList.update k' v al) k \<longleftrightarrow> has_key al k \<or> k = k'"
  by (auto simp: has_key_def update_conv')





lemma map_add_removed:
  "m t = None \<Longrightarrow> m ++ (((m ++ n)(t := None))(k \<mapsto> v)) = ((m ++ n)(t := None))(k \<mapsto> v)"
  by (auto simp: fun_eq_iff map_add_def split: option.splits)

lemma checked_transmissivity:
  assumes mk: "kind = ''mirror'' \<or> kind = ''beamsplitter''"
    and d: "map_of default_properties kind = Some d" and n: "CHR ''_'' \<notin> set name"
    and dist: "distinct (map fst ps)"
    and t: "map_of ps ''transmissivity'' = Some t"
    and nr: "\<not> has_key ps ''reflectivity''"
    and sub: "set (map fst ps) \<subseteq> insert ''transmissivity'' (set (map fst d))"
    and l: "(map_of d ++ map_of ps) ''loss'' = Some l"
    and nz: "num_val l \<noteq> 1"
  shows "\<exists>P. checked_properties kind name ps = Inr P \<and> map fst P = map fst d
             \<and> map_of P = ((map_of d ++ map_of ps)(''transmissivity'' := None))
                  (''reflectivity'' \<mapsto> PyFloat ((1 - num_val t - num_val l) / (1 - num_val l)))"
proof -
  let ?r = "PyFloat ((1 - num_val t - num_val l) / (1 - num_val l))"
  let ?ps1 = "AList.update ''reflectivity'' ?r (AList.delete ''transmissivity'' (dict_merge d ps))"
  have pre: "mirror_prepass kind ps = Inr ?ps1"
    using mirror_prepass_transmissivity [OF mk d dist t nr l] nz by simp
  have dd: "distinct (map fst d)" using d by (rule default_record_distinct)
  have rk: "''reflectivity'' \<in> set (map fst d)"
    using mirror_record(2) [OF mk d] by (simp add: map_of_eq_None_iff)
  have nt: "map_of d ''transmissivity'' = None"
    using mirror_record(3) [OF mk d] by (simp add: map_of_eq_None_iff)
  have hs: "\<And>k. has_key ps k \<Longrightarrow> k = ''transmissivity'' \<or> has_key d k"
    using sub unfolding has_key_keys by blast
  have hr: "has_key d ''reflectivity''" using rk by (simp only: has_key_keys)
  have "\<And>k. has_key ?ps1 k \<Longrightarrow> has_key d k"
    using hs hr by (auto simp: has_key_update has_key_delete has_key_dict_merge)
  then have k1: "set (map fst ?ps1) \<subseteq> set (map fst d)"
    unfolding has_key_keys by blast
  have d1: "distinct (map fst ?ps1)"
    by (intro distinct_update distinct_delete dict_merge_distinct dd)
  from checked_properties_after_prepass [OF d n pre] k1
  have c: "checked_properties kind name ps = Inr (dict_merge d ?ps1)" by simp
  have "map fst (dict_merge d ?ps1) = map fst d"
    using k1 by (rule dict_merge_known_keys)
  moreover have "map_of (dict_merge d ?ps1) =
      ((map_of d ++ map_of ps)(''transmissivity'' := None))(''reflectivity'' \<mapsto> ?r)"
    by (simp only: map_of_dict_merge_distinct [OF d1] update_conv' delete_conv'
        map_of_dict_merge_distinct [OF dist]
        map_add_removed [of "map_of d" "''transmissivity''", OF nt])
  ultimately show ?thesis using c by blast
qed

subsection \<open>Schema closure\<close>




subsection \<open>Transmissivity and reflectivity\<close>

lemma fold_loss_values:
  "num_val (fst (fold_loss r l)) = num_val r * (1 - num_val l)"
  "num_val (snd (fold_loss r l)) = 1 - num_val r * (1 - num_val l) - num_val l"
  by (simp_all add: fold_loss_def Let_def num_val_py_sub num_val_py_mul)

lemma round_trip_arith:
  fixes t l :: rat
  assumes "l \<noteq> 1"
  shows "1 - (1 - t - l) / (1 - l) * (1 - l) - l = t"
proof -
  have "1 - l \<noteq> 0" using assms by simp
  then have "(1 - t - l) / (1 - l) * (1 - l) = 1 - t - l" by simp
  then show ?thesis by simp
qed

text \<open>
  Claim C4. A mirror or beamsplitter is added with transmissivity \<open>t\<close>, no reflectivity, and
  otherwise known property names; \<open>l\<close> is the loss in effect (supplied, or the default) and
  is not 1. Then the call without optional arguments succeeds, and whatever the optional
  arguments are the stored record has the loss \<open>l\<close>, no transmissivity, and a reflectivity
  \<open>r\<close> of value \<open>(1 - t - l) / (1 - l)\<close>; the fold of the serializer applied to \<open>r\<close> and \<open>l\<close>
  gives \<open>r * (1 - l)\<close> and gives back \<open>t\<close>, as exact rationals.
\<close>

theorem transmissivity_round_trip:
  assumes "kind = ''mirror'' \<or> kind = ''beamsplitter''"
    and "map_of default_properties kind = Some d"
    and "CHR ''_'' \<notin> set name"
    and "distinct (map fst ps)"
    and "map_of ps ''transmissivity'' = Some t"
    and "\<not> has_key ps ''reflectivity''"
    and "set (map fst ps) \<subseteq> insert ''transmissivity'' (set (map fst d))"
    and "(map_of d ++ map_of ps) ''loss'' = Some l"
    and "num_val l \<noteq> 1"
  shows "snd (add kind name optimizable None None None None None None ps S) = None
       \<and> (\<exists>P r. map_option properties
                   (map_of (nodes (fst (add kind name optimizable tg pt dr ax d1 d2 ps S))) name)
                 = Some P
               \<and> map_of P ''loss'' = Some l
               \<and> map_of P ''transmissivity'' = None
               \<and> map_of P ''reflectivity'' = Some r
               \<and> num_val r = (1 - num_val t - num_val l) / (1 - num_val l)
               \<and> num_val (fst (fold_loss r l)) = num_val r * (1 - num_val l)
               \<and> num_val (snd (fold_loss r l)) = num_val t)"
proof -
  let ?r = "PyFloat ((1 - num_val t - num_val l) / (1 - num_val l))"
  obtain P where c: "checked_properties kind name ps = Inr P"
    and P: "map_of P = ((map_of d ++ map_of ps)(''transmissivity'' := None))
                         (''reflectivity'' \<mapsto> ?r)"
    using checked_transmissivity [OF assms] by blast
  have ok: "snd (add kind name optimizable None None None None None None ps S) = None"
    using c by (simp add: add_checked_plain)
  obtain n where n: "map_of (nodes (fst (add kind name optimizable tg pt dr ax d1 d2 ps S))) name
                       = Some n" "properties n = P"
    using add_stored [OF c] by blast
  have 1: "map_option properties
             (map_of (nodes (fst (add kind name optimizable tg pt dr ax d1 d2 ps S))) name)
           = Some P" using n by simp
  have 2: "map_of P ''loss'' = Some l" unfolding P using assms(8) by simp
  have 3: "map_of P ''transmissivity'' = None" unfolding P by simp
  have 4: "map_of P ''reflectivity'' = Some ?r" unfolding P by simp
  have 5: "num_val ?r = (1 - num_val t - num_val l) / (1 - num_val l)" by simp
  have 6: "num_val (fst (fold_loss ?r l)) = num_val ?r * (1 - num_val l)"
    by (rule fold_loss_values)
  have 7: "num_val (snd (fold_loss ?r l)) = num_val t"
    unfolding fold_loss_values(2) 5 using assms(9) by (rule round_trip_arith)
  show ?thesis using ok 1 2 3 4 5 6 7 by blast
qed

theorem transmissivity_round_trip_witness:
  "snd (add ''mirror'' ''m1'' True None None None None None None
          [(''transmissivity'', PyFloat (1 / 10))] Setup_init) = None
   \<and> (\<exists>P r. map_option properties
               (map_of (nodes (fst (add ''mirror'' ''m1'' True None None None None None None
                  [(''transmissivity'', PyFloat (1 / 10))] Setup_init))) ''m1'') = Some P
           \<and> map_of P ''loss'' = Some (PyFloat (5 / 1000000))
           \<and> map_of P ''transmissivity'' = None
           \<and> map_of P ''reflectivity'' = Some r
           \<and> num_val r = (1 - 1 / 10 - 5 / 1000000) / (1 - 5 / 1000000)
           \<and> num_val (fst (fold_loss r (PyFloat (5 / 1000000))))
               = num_val r * (1 - 5 / 1000000)
           \<and> num_val (snd (fold_loss r (PyFloat (5 / 1000000)))) = 1 / 10)"
proof -
  have d: "map_of default_properties ''mirror'' =
             Some [(''loss'', PyFloat (5 / 1000000)), (''reflectivity'', PyFloat (1 / 2)),
                   (''tuning'', PyFloat 0)]"
    by (simp add: default_properties_def)
  have l: "(map_of [(''loss'', PyFloat (5 / 1000000)), (''reflectivity'', PyFloat (1 / 2)),
                   (''tuning'', PyFloat 0)] ++ map_of [(''transmissivity'', PyFloat (1 / 10))])
             ''loss'' = Some (PyFloat (5 / 1000000))"
    by (simp add: map_add_def)
  have nr: "\<not> has_key [(''transmissivity'', PyFloat (1 / 10))] ''reflectivity''"
    by (simp add: has_key_def)
  from transmissivity_round_trip [where kind = "''mirror''" and name = "''m1''"
      and ps = "[(''transmissivity'', PyFloat (1 / 10))]" and t = "PyFloat (1 / 10)"
      and l = "PyFloat (5 / 1000000)" and optimizable = True and S = Setup_init
      and tg = None and pt = None and dr = None and ax = None and ?d1.0 = None and ?d2.0 = None,
      OF _ d _ _ _ nr _ l]
  show ?thesis by simp
qed

subsection \<open>The serializer on records with missing keys\<close>

lemma bind_err_Inl [simp]: "bind_err (Inl e) f = Inl e"
  by (simp add: bind_err_def)

lemma bind_err_Inr [simp]: "bind_err (Inr x) f = f x"
  by (simp add: bind_err_def)

lemma data_key_None [simp]: "data_key None = Inl PyKeyError"
  by (simp add: data_key_def)

lemma data_key_Some [simp]: "data_key (Some x) = Inr x"
  by (simp add: data_key_def)

lemma bind_err_key:
  "(\<And>x. f x = Inl PyKeyError) \<Longrightarrow> bind_err (getitem d k) f = Inl PyKeyError"
  by (simp add: getitem_def split: option.splits)

lemma node_statement_free_mass:
  "component data = ''free_mass'' \<Longrightarrow> target data = None \<Longrightarrow>
   node_statement fs S name data pd = Inl PyKeyError"
  by (simp add: node_statement_def)

lemma node_statement_signal:
  "component data = ''signal'' \<Longrightarrow> target data = None \<Longrightarrow>
   node_statement fs S name data pd = Inl PyKeyError"
  by (simp add: node_statement_def)

lemma node_statement_qnoised:
  assumes "component data = ''qnoised''"
    and "target data = None \<or> port data = None \<or> direction data = None"
  shows "node_statement fs S name data pd = Inl PyKeyError"
proof -
  have "node_statement fs S name data pd =
       bind_err (data_key (target data)) (\<lambda>tg. bind_err (Nodes_getitem S tg) (\<lambda>tn.
         bind_err (getitem port_translation (component tn)) (\<lambda>table.
           bind_err (data_key (port data)) (\<lambda>pt. bind_err (getitem table pt) (\<lambda>pcode.
             bind_err (data_key (direction data)) (\<lambda>dr.
               bind_err (getitem direction_translation dr) (\<lambda>dcode.
                 bind_err (data_key (target data)) (\<lambda>tg2.
                   Inr (''qnoised '' @ name @ '' '' @ tg2 @ ''.'' @ pcode @ ''.'' @ dcode
                        @ [CHR 0x0A])))))))))"
    using assms(1) by (simp add: node_statement_def)
  also have "\<dots> = Inl PyKeyError"
  proof (cases "target data")
    case None
    then show ?thesis by simp
  next
    case (Some tg)
    show ?thesis
    proof (cases "port data")
      case None
      then show ?thesis using Some
        by (simp add: Nodes_getitem_def bind_err_key)
    next
      case (Some pt)
      then have "direction data = None" using assms(2) \<open>target data = Some tg\<close> by simp
      then show ?thesis using Some \<open>target data = Some tg\<close>
        by (simp add: Nodes_getitem_def bind_err_key)
    qed
  qed
  finally show ?thesis .
qed

lemma node_statement_unserializable:
  "unserializable data \<Longrightarrow> node_statement fs S name data pd = Inl PyKeyError"
  unfolding unserializable_def
  using node_statement_free_mass node_statement_signal node_statement_qnoised by blast

lemma node_step_unserializable:
  assumes "unserializable (snd nd)"
  shows "node_step DP fs S nd st =
           (if \<not> has_key DP (component (snd nd)) \<and> snd st = None then Inl PyUnboundLocalError
            else Inl PyKeyError)"
  using assms
  by (auto simp: node_step_def Let_def getitem_def has_key_def node_statement_unserializable
      split: option.splits)

lemma node_loop_unserializable:
  assumes "nd \<in> set nds" and "unserializable (snd nd)"
  shows "\<exists>e. node_loop DP fs S nds st = Inl e"
  using assms(1)
proof (induction nds arbitrary: st)
  case Nil
  then show ?case by simp
next
  case (Cons x xs)
  show ?case
  proof (cases "node_step DP fs S x st")
    case (Inl e)
    then show ?thesis by simp
  next
    case (Inr st')
    then have "x \<noteq> nd" using node_step_unserializable [OF assms(2), of DP fs S st]
      by (auto split: if_splits)
    then have "nd \<in> set xs" using Cons.prems by simp
    then show ?thesis using Cons.IH Inr by simp
  qed
qed

lemma node_loop_append:
  "node_loop DP fs S (xs @ ys) st = bind_err (node_loop DP fs S xs st) (node_loop DP fs S ys)"
  by (induction xs arbitrary: st) (simp_all add: bind_err_def split: sum.splits)

end
